theory Spec2Isabelle
  imports Main "HOL-Library.AList"
begin

section \<open>The Python object store\<close>

text \<open>
  The patching engine of \<^verbatim>\<open>patchy/core.py\<close> works on live Python objects: modules,
  classes, functions, code objects, lists and dicts, all shared and compared by identity.
  An object is an address into a store; \<^verbatim>\<open>id(x)\<close> is the address itself. A Python
  dict (an attribute \<^verbatim>\<open>__dict__\<close>, a dict value, the keyword arguments) is an association
  list in insertion order with distinct string keys, written with \<open>AList.update\<close>
  (replace in place, else add at the end) and read with \<open>map_of\<close>.
\<close>

type_synonym addr = nat

type_synonym pydict = "(string \<times> addr) list"

text \<open>
  What a function's code does when run; just enough to run the greeting scenario of the
  chaining primitive: return a string constant, or call \<^verbatim>\<open>super_patchy()\<close> and
  append a string constant to what it returns.
\<close>

datatype body = Returns string | SuperThenAppend string

datatype pyobj =
    PInt int
  | PStr string
  | PList "addr list"
  | PDict pydict
  | PCode "string list" body
  | PFunction string addr
  | PMethod addr addr
  | PClassMethod addr
  | PStaticMethod addr
  | PModule string pydict
  | PClass string string "addr list" pydict
  | PInstance addr pydict

text \<open>
  \<open>PCode argnames body\<close>; \<open>PFunction __name__ __code__\<close>; \<open>PMethod __func__ __self__\<close>;
  \<open>PClassMethod __func__\<close>, \<open>PStaticMethod __func__\<close>; \<open>PModule __name__ __dict__\<close>;
  \<open>PClass __name__ __module__ mro __dict__\<close>, the mro without the class itself;
  \<open>PInstance class __dict__\<close>.
\<close>

datatype error =
    ImportError string
  | AttributeError string
  | KeyError string
  | RuntimeError string
  | TypeError string
  | ValueError string
  | IndexError
  | RecursionError

text \<open>
  The process-wide state: the store, the next unused address, the contents of the
  global \<^verbatim>\<open>patchy_records\<close> dict (keyed by \<^verbatim>\<open>id\<close>, so by address), and the
  modules that the import system delivers, by absolute dotted name.
\<close>

record state =
  heap :: "addr \<rightharpoonup> pyobj"
  fresh :: addr
  patchy_records :: "addr \<rightharpoonup> addr"
  sys_modules :: "string \<rightharpoonup> addr"

text \<open>A call returns a value or raises; either way the mutations made so far stay.\<close>

datatype 'a outcome = Return 'a state | Raised error state

definition alloc :: "state \<Rightarrow> pyobj \<Rightarrow> addr \<times> state" where
  "alloc S ob = (fresh S, S\<lparr>heap := (heap S)(fresh S \<mapsto> ob), fresh := Suc (fresh S)\<rparr>)"

subsection \<open>Builtins the engine relies on\<close>

text \<open>Raw lookup along a list of classes, first hit wins, nothing is bound.\<close>

definition class_dict :: "(addr \<rightharpoonup> pyobj) \<Rightarrow> addr \<Rightarrow> pydict option" where
  "class_dict h c = (case h c of Some (PClass _ _ _ d) \<Rightarrow> Some d | _ \<Rightarrow> None)"

fun mro_lookup :: "(addr \<rightharpoonup> pyobj) \<Rightarrow> addr list \<Rightarrow> string \<Rightarrow> addr option" where
  "mro_lookup h [] n = None"
| "mro_lookup h (c # cs) n =
     (case class_dict h c of
        Some d \<Rightarrow> (case map_of d n of Some v \<Rightarrow> Some v | None \<Rightarrow> mro_lookup h cs n)
      | None \<Rightarrow> mro_lookup h cs n)"

definition mro_of :: "(addr \<rightharpoonup> pyobj) \<Rightarrow> addr \<Rightarrow> addr list" where
  "mro_of h c = (case h c of Some (PClass _ _ m _) \<Rightarrow> m | _ \<Rightarrow> [])"

definition class_lookup :: "(addr \<rightharpoonup> pyobj) \<Rightarrow> addr \<Rightarrow> string \<Rightarrow> addr option" where
  "class_lookup h c n = mro_lookup h (c # mro_of h c) n"

text \<open>\<^verbatim>\<open>callable(x)\<close>, as of Python 3.10: functions, bound methods, classes,
  \<^verbatim>\<open>staticmethod\<close> objects, and instances whose class has \<^verbatim>\<open>__call__\<close>;
  \<^verbatim>\<open>None\<close>, \<^verbatim>\<open>classmethod\<close> objects and plain data are not.\<close>

definition callable :: "(addr \<rightharpoonup> pyobj) \<Rightarrow> addr \<Rightarrow> bool" where
  "callable h a = (case h a of
       Some (PFunction _ _) \<Rightarrow> True
     | Some (PMethod _ _) \<Rightarrow> True
     | Some (PClass _ _ _ _) \<Rightarrow> True
     | Some (PStaticMethod _) \<Rightarrow> True
     | Some (PInstance c _) \<Rightarrow> class_lookup h c ''__call__'' \<noteq> None
     | _ \<Rightarrow> False)"

definition callable_opt :: "(addr \<rightharpoonup> pyobj) \<Rightarrow> addr option \<Rightarrow> bool" where
  "callable_opt h v = (case v of None \<Rightarrow> False | Some a \<Rightarrow> callable h a)"

text \<open>\<^verbatim>\<open>x.__code__\<close>: a function has one, a bound method forwards to its function.\<close>

definition code_attr :: "(addr \<rightharpoonup> pyobj) \<Rightarrow> addr \<Rightarrow> addr option" where
  "code_attr h a = (case h a of
       Some (PFunction _ c) \<Rightarrow> Some c
     | Some (PMethod f _) \<Rightarrow> (case h f of Some (PFunction _ c) \<Rightarrow> Some c | _ \<Rightarrow> None)
     | _ \<Rightarrow> None)"

text \<open>\<^verbatim>\<open>x.__name__\<close>, as of Python 3.10: functions, classes and modules have their
  own; a bound method forwards to its function; a \<^verbatim>\<open>classmethod\<close> or
  \<^verbatim>\<open>staticmethod\<close> object carries the name of what it wraps.\<close>

definition direct_name :: "pyobj \<Rightarrow> string option" where
  "direct_name ob = (case ob of
       PFunction n _ \<Rightarrow> Some n
     | PClass n _ _ _ \<Rightarrow> Some n
     | PModule n _ \<Rightarrow> Some n
     | _ \<Rightarrow> None)"

definition obj_name :: "(addr \<rightharpoonup> pyobj) \<Rightarrow> addr \<Rightarrow> string option" where
  "obj_name h a = (case h a of Some ob \<Rightarrow> direct_name ob | None \<Rightarrow> None)"

definition func_name :: "(addr \<rightharpoonup> pyobj) \<Rightarrow> addr \<Rightarrow> string option" where
  "func_name h a = (case h a of Some (PMethod f _) \<Rightarrow> obj_name h f | _ \<Rightarrow> obj_name h a)"

definition name_attr :: "(addr \<rightharpoonup> pyobj) \<Rightarrow> addr \<Rightarrow> string option" where
  "name_attr h a = (case h a of
       Some (PClassMethod f) \<Rightarrow> func_name h f
     | Some (PStaticMethod f) \<Rightarrow> func_name h f
     | _ \<Rightarrow> func_name h a)"

definition is_module :: "(addr \<rightharpoonup> pyobj) \<Rightarrow> addr \<Rightarrow> bool" where
  "is_module h a = (case h a of Some (PModule _ _) \<Rightarrow> True | _ \<Rightarrow> False)"

definition is_class :: "(addr \<rightharpoonup> pyobj) \<Rightarrow> addr \<Rightarrow> bool" where
  "is_class h a = (case h a of Some (PClass _ _ _ _) \<Rightarrow> True | _ \<Rightarrow> False)"

definition is_dict :: "(addr \<rightharpoonup> pyobj) \<Rightarrow> addr \<Rightarrow> bool" where
  "is_dict h a = (case h a of Some (PDict _) \<Rightarrow> True | _ \<Rightarrow> False)"

definition is_list :: "(addr \<rightharpoonup> pyobj) \<Rightarrow> addr \<Rightarrow> bool" where
  "is_list h a = (case h a of Some (PList _) \<Rightarrow> True | _ \<Rightarrow> False)"

text \<open>Truth value: empty containers, empty strings and zero are false.\<close>

definition truthy :: "(addr \<rightharpoonup> pyobj) \<Rightarrow> addr \<Rightarrow> bool" where
  "truthy h a = (case h a of
       Some (PInt i) \<Rightarrow> i \<noteq> 0
     | Some (PStr s) \<Rightarrow> s \<noteq> []
     | Some (PList xs) \<Rightarrow> xs \<noteq> []
     | Some (PDict d) \<Rightarrow> d \<noteq> []
     | _ \<Rightarrow> True)"

text \<open>\<^verbatim>\<open>inspect.getattr_static(obj, name, None)\<close>: the stored value, no descriptor is
  run; \<open>None\<close> when absent.\<close>

definition getattr_static :: "(addr \<rightharpoonup> pyobj) \<Rightarrow> addr \<Rightarrow> string \<Rightarrow> addr option" where
  "getattr_static h a n = (case h a of
       Some (PModule _ d) \<Rightarrow> map_of d n
     | Some (PClass _ _ _ _) \<Rightarrow> class_lookup h a n
     | Some (PInstance c d) \<Rightarrow>
         (case map_of d n of Some v \<Rightarrow> Some v | None \<Rightarrow> class_lookup h c n)
     | _ \<Rightarrow> None)"

text \<open>\<^verbatim>\<open>getattr(obj, name)\<close>: as above, but a \<^verbatim>\<open>classmethod\<close> found on the class is
  bound to the class, a \<^verbatim>\<open>staticmethod\<close> is unwrapped, and a function found through an
  instance's class is bound to the instance; binding makes a new method object.\<close>

definition bound_method :: "state \<Rightarrow> addr \<Rightarrow> addr \<Rightarrow> addr outcome" where
  "bound_method S f self = (case alloc S (PMethod f self) of (m, S') \<Rightarrow> Return m S')"

definition bind_class_attr :: "state \<Rightarrow> addr \<Rightarrow> addr \<Rightarrow> addr outcome" where
  "bind_class_attr S cls v = (case heap S v of
       Some (PClassMethod f) \<Rightarrow> bound_method S f cls
     | Some (PStaticMethod f) \<Rightarrow> Return f S
     | _ \<Rightarrow> Return v S)"

definition bind_instance_attr :: "state \<Rightarrow> addr \<Rightarrow> addr \<Rightarrow> addr \<Rightarrow> addr outcome" where
  "bind_instance_attr S inst cls v = (case heap S v of
       Some (PFunction _ _) \<Rightarrow> bound_method S v inst
     | Some (PClassMethod f) \<Rightarrow> bound_method S f cls
     | Some (PStaticMethod f) \<Rightarrow> Return f S
     | _ \<Rightarrow> Return v S)"

definition py_getattr :: "state \<Rightarrow> addr \<Rightarrow> string \<Rightarrow> addr outcome" where
  "py_getattr S a n = (case heap S a of
       Some (PModule _ d) \<Rightarrow>
         (case map_of d n of Some v \<Rightarrow> Return v S | None \<Rightarrow> Raised (AttributeError n) S)
     | Some (PClass _ _ _ _) \<Rightarrow>
         (case class_lookup (heap S) a n of
            None \<Rightarrow> Raised (AttributeError n) S
          | Some v \<Rightarrow> bind_class_attr S a v)
     | Some (PInstance c d) \<Rightarrow>
         (case map_of d n of
            Some v \<Rightarrow> Return v S
          | None \<Rightarrow>
             (case class_lookup (heap S) c n of
                None \<Rightarrow> Raised (AttributeError n) S
              | Some v \<Rightarrow> bind_instance_attr S a c v))
     | _ \<Rightarrow> Raised (AttributeError n) S)"

text \<open>\<^verbatim>\<open>setattr(obj, name, value)\<close> writes the object's own \<^verbatim>\<open>__dict__\<close>.\<close>

definition py_setattr :: "state \<Rightarrow> addr \<Rightarrow> string \<Rightarrow> addr \<Rightarrow> unit outcome" where
  "py_setattr S a n v = (case heap S a of
       Some (PModule nm d) \<Rightarrow>
         Return () (S\<lparr>heap := (heap S)(a \<mapsto> PModule nm (AList.update n v d))\<rparr>)
     | Some (PClass nm md m d) \<Rightarrow>
         Return () (S\<lparr>heap := (heap S)(a \<mapsto> PClass nm md m (AList.update n v d))\<rparr>)
     | Some (PInstance c d) \<Rightarrow>
         Return () (S\<lparr>heap := (heap S)(a \<mapsto> PInstance c (AList.update n v d))\<rparr>)
     | _ \<Rightarrow> Raised (AttributeError n) S)"

section \<open>PatchyRecords\<close>

text \<open>
  \<^verbatim>\<open>
  class PatchyRecords(dict):
      def __getitem__(self, key):
          with suppress(AttributeError):
              key = key.__code__
          with suppress(KeyError):
              return super().__getitem__(id(key))
          raise RuntimeError('Patched func cannot find its predecessor')
      def __setitem__(self, key, value):
          if isinstance(value, (classmethod, staticmethod)):
              value = value.__func__
          with suppress(AttributeError):
              key = key.__code__
          return super().__setitem__(id(key), value)
      def __delitem__(self, key):  ... super().__delitem__(id(key))
      def __contains__(self, key): ... super().__contains__(id(key))
  \<close>
\<close>

definition norm_key :: "(addr \<rightharpoonup> pyobj) \<Rightarrow> addr \<Rightarrow> addr" where
  "norm_key h key = (case code_attr h key of Some c \<Rightarrow> c | None \<Rightarrow> key)"

definition strip_decorator :: "(addr \<rightharpoonup> pyobj) \<Rightarrow> addr \<Rightarrow> addr" where
  "strip_decorator h v = (case h v of
       Some (PClassMethod f) \<Rightarrow> f
     | Some (PStaticMethod f) \<Rightarrow> f
     | _ \<Rightarrow> v)"

definition records_getitem :: "state \<Rightarrow> addr \<Rightarrow> addr outcome" where
  "records_getitem S key =
     (case patchy_records S (norm_key (heap S) key) of
        Some v \<Rightarrow> Return v S
      | None \<Rightarrow> Raised (RuntimeError ''Patched func cannot find its predecessor'') S)"

definition records_setitem :: "state \<Rightarrow> addr \<Rightarrow> addr \<Rightarrow> state" where
  "records_setitem S key v =
     S\<lparr>patchy_records :=
         (patchy_records S)(norm_key (heap S) key \<mapsto> strip_decorator (heap S) v)\<rparr>"


definition records_contains :: "state \<Rightarrow> addr \<Rightarrow> bool" where
  "records_contains S key = (patchy_records S (norm_key (heap S) key) \<noteq> None)"

section \<open>The apply engine (PatchBase)\<close>

datatype session =
    PatchModule (target: addr) (source: "addr option") (module_sep: string)
  | PatchClass (target: addr) (source: "addr option")

text \<open>
  The first loop of \<^verbatim>\<open>apply\<close> files every positional entry into \<^verbatim>\<open>kattrs\<close>:
  \<^verbatim>\<open>
  for attr in attrs:
      kattrs = kattrs or {}
      if hasattr(attr, "__name__"):
          kattrs[attr.__name__] = attr
      else:
          kattrs[attr] = getattr(self.source, attr)
  \<close>
  An entry without a name must be a string; \<^verbatim>\<open>getattr\<close> refuses any other attribute
  name with a TypeError, and a missing source (\<^verbatim>\<open>None\<close>) has no attributes.
\<close>

definition source_getattr :: "state \<Rightarrow> addr option \<Rightarrow> string \<Rightarrow> addr outcome" where
  "source_getattr S src n = (case src of
       None \<Rightarrow> Raised (AttributeError n) S
     | Some s \<Rightarrow> py_getattr S s n)"

fun normalize_attrs :: "state \<Rightarrow> addr option \<Rightarrow> addr list \<Rightarrow> pydict \<Rightarrow> pydict outcome" where
  "normalize_attrs S src [] kattrs = Return kattrs S"
| "normalize_attrs S src (attr # attrs) kattrs =
     (case name_attr (heap S) attr of
        Some nm \<Rightarrow> normalize_attrs S src attrs (AList.update nm attr kattrs)
      | None \<Rightarrow>
         (case heap S attr of
            Some (PStr s) \<Rightarrow>
              (case source_getattr S src s of
                 Return v S' \<Rightarrow> normalize_attrs S' src attrs (AList.update s v kattrs)
               | Raised e S' \<Rightarrow> Raised e S')
          | _ \<Rightarrow> Raised (TypeError ''attribute name must be string'') S))"

text \<open>
  The merge step of the second loop:
  \<^verbatim>\<open>
  if merge:
      if isinstance(value, dict) and isinstance(old_value, dict):
          getattr(self.target, attr).update(value)
      elif isinstance(value, list) and isinstance(old_value, list):
          getattr(self.target, attr).extend(value)
  \<close>
  Both calls mutate the container that the target holds.
\<close>

definition dict_update :: "state \<Rightarrow> addr \<Rightarrow> addr \<Rightarrow> unit outcome" where
  "dict_update S d other = (case (heap S d, heap S other) of
       (Some (PDict xs), Some (PDict ys)) \<Rightarrow>
         Return () (S\<lparr>heap := (heap S)(d \<mapsto> PDict (fold (\<lambda>(k, v). AList.update k v) ys xs))\<rparr>)
     | _ \<Rightarrow> Raised (AttributeError ''update'') S)"

definition list_extend :: "state \<Rightarrow> addr \<Rightarrow> addr \<Rightarrow> unit outcome" where
  "list_extend S l other = (case (heap S l, heap S other) of
       (Some (PList xs), Some (PList ys)) \<Rightarrow>
         Return () (S\<lparr>heap := (heap S)(l \<mapsto> PList (xs @ ys))\<rparr>)
     | _ \<Rightarrow> Raised (AttributeError ''extend'') S)"

definition is_dict_opt :: "(addr \<rightharpoonup> pyobj) \<Rightarrow> addr option \<Rightarrow> bool" where
  "is_dict_opt h v = (case v of None \<Rightarrow> False | Some a \<Rightarrow> is_dict h a)"

definition is_list_opt :: "(addr \<rightharpoonup> pyobj) \<Rightarrow> addr option \<Rightarrow> bool" where
  "is_list_opt h v = (case v of None \<Rightarrow> False | Some a \<Rightarrow> is_list h a)"

definition merge_step ::
  "state \<Rightarrow> addr \<Rightarrow> bool \<Rightarrow> string \<Rightarrow> addr \<Rightarrow> addr option \<Rightarrow> unit outcome" where
  "merge_step S tgt merge attr v old_value =
     (if merge then
        if is_dict (heap S) v \<and> is_dict_opt (heap S) old_value then
          (case py_getattr S tgt attr of
             Return d S' \<Rightarrow> dict_update S' d v
           | Raised e S' \<Rightarrow> Raised e S')
        else if is_list (heap S) v \<and> is_list_opt (heap S) old_value then
          (case py_getattr S tgt attr of
             Return l S' \<Rightarrow> list_extend S' l v
           | Raised e S' \<Rightarrow> Raised e S')
        else Return () S
      else Return () S)"

text \<open>
  The second loop, over \<^verbatim>\<open>kattrs.items()\<close>:
  \<^verbatim>\<open>
  for attr, value in kattrs.items():
      old_value = inspect.getattr_static(self.target, attr, None)
      if callable(value) and callable(old_value):
          if value in patchy_records:
              return
          patchy_records[value] = old_value
      if merge: ...
      setattr(self.target, attr, value)
  \<close>
\<close>

definition duplicate_patch :: "state \<Rightarrow> addr \<Rightarrow> string \<Rightarrow> addr \<Rightarrow> bool" where
  "duplicate_patch S tgt attr v =
     (callable (heap S) v \<and> callable_opt (heap S) (getattr_static (heap S) tgt attr)
      \<and> records_contains S v)"

definition preserve_old :: "state \<Rightarrow> addr \<Rightarrow> addr option \<Rightarrow> state" where
  "preserve_old S v old_value =
     (case old_value of
        None \<Rightarrow> S
      | Some old \<Rightarrow>
          if callable (heap S) v \<and> callable (heap S) old then records_setitem S v old else S)"

fun apply_items :: "addr \<Rightarrow> bool \<Rightarrow> state \<Rightarrow> pydict \<Rightarrow> unit outcome" where
  "apply_items tgt merge S [] = Return () S"
| "apply_items tgt merge S ((attr, v) # rest) =
     (let old_value = getattr_static (heap S) tgt attr in
      if duplicate_patch S tgt attr v then Return () S
      else
        (case merge_step (preserve_old S v old_value) tgt merge attr v old_value of
           Raised e S2 \<Rightarrow> Raised e S2
         | Return _ S2 \<Rightarrow>
            (case py_setattr S2 tgt attr v of
               Raised e S3 \<Rightarrow> Raised e S3
             | Return _ S3 \<Rightarrow> apply_items tgt merge S3 rest)))"

text \<open>
  \<^verbatim>\<open>apply(self, attrs=None, kattrs=None, merge=False)\<close>. \<^verbatim>\<open>kattrs\<close> left at
  \<^verbatim>\<open>None\<close> with no positional entry reaches \<^verbatim>\<open>kattrs.items()\<close> as \<^verbatim>\<open>None\<close>.
\<close>

definition apply_patch ::
  "state \<Rightarrow> session \<Rightarrow> addr list \<Rightarrow> pydict option \<Rightarrow> bool \<Rightarrow> unit outcome" where
  "apply_patch S p attrs kattrs merge =
     (if attrs = [] \<and> kattrs = None then Raised (AttributeError ''items'') S
      else
        (case normalize_attrs S (source p) attrs (case kattrs of None \<Rightarrow> [] | Some k \<Rightarrow> k) of
           Raised e S' \<Rightarrow> Raised e S'
         | Return k S' \<Rightarrow> apply_items (target p) merge S' k))"

definition add :: "state \<Rightarrow> session \<Rightarrow> addr list \<Rightarrow> pydict \<Rightarrow> unit outcome" where
  "add S p attrs kattrs = apply_patch S p attrs (Some kattrs) False"

definition merge :: "state \<Rightarrow> session \<Rightarrow> addr list \<Rightarrow> pydict \<Rightarrow> unit outcome" where
  "merge S p attrs kattrs = apply_patch S p attrs (Some kattrs) True"

definition state_of :: "'a outcome \<Rightarrow> state" where
  "state_of r = (case r of Return _ S \<Rightarrow> S | Raised _ S \<Rightarrow> S)"

text \<open>An object with its \<^verbatim>\<open>__dict__\<close> replaced, all else kept.\<close>

definition with_dict :: "pyobj \<Rightarrow> pydict \<Rightarrow> pyobj" where
  "with_dict ob d = (case ob of
       PModule nm _ \<Rightarrow> PModule nm d
     | PClass nm md m _ \<Rightarrow> PClass nm md m d
     | PInstance c _ \<Rightarrow> PInstance c d
     | _ \<Rightarrow> ob)"

text \<open>The same outcome, with the registry contents replaced.\<close>

definition with_records :: "(addr \<rightharpoonup> addr) \<Rightarrow> 'a outcome \<Rightarrow> 'a outcome" where
  "with_records R r = (case r of
       Return x S \<Rightarrow> Return x (S\<lparr>patchy_records := R\<rparr>)
     | Raised e S \<Rightarrow> Raised e (S\<lparr>patchy_records := R\<rparr>))"

section \<open>PatchClass.add\_desc\<close>

text \<open>
  \<^verbatim>\<open>
  def add_desc(self, *attrs, **kattrs):
      for attr, value in kattrs.items():
          setattr(self.target, attr, value)
      for attr in attrs:
          if hasattr(attr, "__name__"):
              (attr, value) = (attr.__name__, attr)
          else:
              value = self.source.__dict__[attr]
          old_val = self.target.__dict__.get(attr, None)
          setattr(self.target, attr, value)
  \<close>
\<close>

definition own_dict :: "(addr \<rightharpoonup> pyobj) \<Rightarrow> addr option \<Rightarrow> pydict option" where
  "own_dict h a = (case a of
       None \<Rightarrow> None
     | Some x \<Rightarrow>
        (case h x of
           Some (PModule _ d) \<Rightarrow> Some d
         | Some (PClass _ _ _ d) \<Rightarrow> Some d
         | Some (PInstance _ d) \<Rightarrow> Some d
         | _ \<Rightarrow> None))"

fun add_desc_kattrs :: "addr \<Rightarrow> state \<Rightarrow> pydict \<Rightarrow> unit outcome" where
  "add_desc_kattrs tgt S [] = Return () S"
| "add_desc_kattrs tgt S ((attr, v) # rest) =
     (case py_setattr S tgt attr v of
        Raised e S' \<Rightarrow> Raised e S'
      | Return _ S' \<Rightarrow> add_desc_kattrs tgt S' rest)"

definition source_dict_item :: "state \<Rightarrow> addr option \<Rightarrow> addr \<Rightarrow> (string \<times> addr) outcome" where
  "source_dict_item S src attr =
     (case own_dict (heap S) src of
        None \<Rightarrow> Raised (AttributeError ''__dict__'') S
      | Some d \<Rightarrow>
         (case heap S attr of
            Some (PStr s) \<Rightarrow>
              (case map_of d s of
                 Some v \<Rightarrow> Return (s, v) S
               | None \<Rightarrow> Raised (KeyError s) S)
          | Some (PList _) \<Rightarrow> Raised (TypeError ''unhashable type'') S
          | Some (PDict _) \<Rightarrow> Raised (TypeError ''unhashable type'') S
          | _ \<Rightarrow> Raised (KeyError []) S))"

definition desc_entry :: "state \<Rightarrow> addr option \<Rightarrow> addr \<Rightarrow> (string \<times> addr) outcome" where
  "desc_entry S src attr = (case name_attr (heap S) attr of
       Some nm \<Rightarrow> Return (nm, attr) S
     | None \<Rightarrow> source_dict_item S src attr)"

fun add_desc_attrs :: "addr \<Rightarrow> addr option \<Rightarrow> state \<Rightarrow> addr list \<Rightarrow> unit outcome" where
  "add_desc_attrs tgt src S [] = Return () S"
| "add_desc_attrs tgt src S (attr # attrs) =
     (case desc_entry S src attr of
        Raised e S' \<Rightarrow> Raised e S'
      | Return (nm, v) S' \<Rightarrow>
         (case py_setattr S' tgt nm v of
            Raised e S'' \<Rightarrow> Raised e S''
          | Return _ S'' \<Rightarrow> add_desc_attrs tgt src S'' attrs))"

definition add_desc :: "state \<Rightarrow> session \<Rightarrow> addr list \<Rightarrow> pydict \<Rightarrow> unit outcome" where
  "add_desc S p attrs kattrs =
     (case add_desc_kattrs (target p) S kattrs of
        Raised e S' \<Rightarrow> Raised e S'
      | Return _ S' \<Rightarrow> add_desc_attrs (target p) (source p) S' attrs)"

text \<open>
  How \<^verbatim>\<open>add_desc\<close> files a positional entry: an object with a \<^verbatim>\<open>__name__\<close> under
  that name with itself as value, a string under itself with the value that the source's
  own \<^verbatim>\<open>__dict__\<close> holds for it.
\<close>

abbreviation filed_as ::
  "(addr \<rightharpoonup> pyobj) \<Rightarrow> addr option \<Rightarrow> addr \<Rightarrow> string \<times> addr \<Rightarrow> bool" where
  "filed_as h src a \<equiv> \<lambda>(nm, v).
     (name_attr h a = Some nm \<and> v = a)
     \<or> (name_attr h a = None \<and> h a = Some (PStr nm)
         \<and> (\<exists>ds. own_dict h src = Some ds \<and> map_of ds nm = Some v))"

section \<open>super\_patchy\<close>

text \<open>
  \<^verbatim>\<open>
  def super_patchy(*args, do_call=True, **kwargs):
      caller_frame = inspect.currentframe().f_back
      caller = inspect.getargvalues(caller_frame)
      old_func = patchy_records[caller_frame.f_code]
      if caller.args[0] in ['self', 'cls']:
          old_func = MethodType(old_func, caller.locals[caller.args[0]])
      if do_call:
          return old_func(*args, **kwargs)
      return old_func
  \<close>
  The caller's frame is an argument of the model: its code object and its locals.
  \<^verbatim>\<open>caller.args\<close> are the parameter names of that code object. The call
  \<^verbatim>\<open>old_func(*args, **kwargs)\<close> is the argument \<open>invoke\<close>.
\<close>

record frame =
  f_code :: addr
  f_locals :: pydict

definition caller_args :: "(addr \<rightharpoonup> pyobj) \<Rightarrow> frame \<Rightarrow> string list" where
  "caller_args h fr = (case h (f_code fr) of Some (PCode names _) \<Rightarrow> names | _ \<Rightarrow> [])"

text \<open>\<^verbatim>\<open>MethodType(func, obj)\<close> wants a callable and makes a new bound method.\<close>

definition MethodType :: "state \<Rightarrow> addr \<Rightarrow> addr \<Rightarrow> addr outcome" where
  "MethodType S f self =
     (if callable (heap S) f then bound_method S f self
      else Raised (TypeError ''first argument must be callable'') S)"

definition super_patchy ::
  "(state \<Rightarrow> addr \<Rightarrow> addr list \<Rightarrow> pydict \<Rightarrow> addr outcome) \<Rightarrow>
   state \<Rightarrow> frame \<Rightarrow> addr list \<Rightarrow> pydict \<Rightarrow> bool \<Rightarrow> addr outcome" where
  "super_patchy invoke S caller_frame args kwargs do_call =
     (case records_getitem S (f_code caller_frame) of
        Raised e S1 \<Rightarrow> Raised e S1
      | Return old_func S1 \<Rightarrow>
         (case caller_args (heap S1) caller_frame of
            [] \<Rightarrow> Raised IndexError S1
          | a0 # _ \<Rightarrow>
             (case (if a0 \<in> set [''self'', ''cls'']
                    then (case map_of (f_locals caller_frame) a0 of
                            None \<Rightarrow> Raised (KeyError a0) S1
                          | Some self \<Rightarrow> MethodType S1 old_func self)
                    else Return old_func S1) of
                Raised e S2 \<Rightarrow> Raised e S2
              | Return f S2 \<Rightarrow>
                 if do_call then invoke S2 f args kwargs else Return f S2)))"

text \<open>
  Calling a callable, for the bodies of \<open>body\<close>: a function binds its parameters
  positionally and runs its body in a new frame, a bound method passes its
  \<^verbatim>\<open>__self__\<close> first, a \<^verbatim>\<open>staticmethod\<close> object calls what it wraps, an
  instance calls the \<^verbatim>\<open>__call__\<close> of its class. The first argument bounds the depth
  of nested calls, past which Python raises RecursionError. Instantiating a class is not
  covered.
\<close>

definition new_str :: "state \<Rightarrow> string \<Rightarrow> addr outcome" where
  "new_str S s = (case alloc S (PStr s) of (a, S') \<Rightarrow> Return a S')"

primrec call :: "nat \<Rightarrow> state \<Rightarrow> addr \<Rightarrow> addr list \<Rightarrow> pydict \<Rightarrow> addr outcome" where
  "call 0 = (\<lambda>S f args kwargs. Raised RecursionError S)"
| "call (Suc n) = (\<lambda>S f args kwargs.
     case heap S f of
       Some (PFunction _ c) \<Rightarrow>
         (case heap S c of
            Some (PCode names b) \<Rightarrow>
              if length args \<noteq> length names \<or> kwargs \<noteq> []
              then Raised (TypeError ''arguments do not match the parameters'') S
              else
                (case b of
                   Returns s \<Rightarrow> new_str S s
                 | SuperThenAppend s \<Rightarrow>
                    (case super_patchy (call n) S
                            \<lparr>f_code = c, f_locals = zip names args\<rparr> [] [] True of
                       Raised e S' \<Rightarrow> Raised e S'
                     | Return r S' \<Rightarrow>
                        (case heap S' r of
                           Some (PStr t) \<Rightarrow> new_str S' (t @ s)
                         | _ \<Rightarrow> Raised (TypeError ''unsupported operand'') S')))
          | _ \<Rightarrow> Raised (TypeError ''function without code'') S)
     | Some (PMethod g self) \<Rightarrow> call n S g (self # args) kwargs
     | Some (PStaticMethod g) \<Rightarrow> call n S g args kwargs
     | Some (PInstance c _) \<Rightarrow>
         (case class_lookup (heap S) c ''__call__'' of
            None \<Rightarrow> Raised (TypeError ''object is not callable'') S
          | Some g \<Rightarrow>
             (case heap S g of
                Some (PStaticMethod g') \<Rightarrow> call n S g' args kwargs
              | Some (PClassMethod g') \<Rightarrow> call n S g' (c # args) kwargs
              | _ \<Rightarrow> call n S g (f # args) kwargs))
     | _ \<Rightarrow> Raised (TypeError ''object is not callable'') S)"

section \<open>resolve\<close>

text \<open>
  \<^verbatim>\<open>importlib.import_module(name, package)\<close>: leading dots make the name relative to
  \<^verbatim>\<open>package\<close>, one level up per dot after the first; the absolute name is then
  looked up among the modules the import system delivers. A module that is not found is
  an ImportError (ModuleNotFoundError is one).
\<close>

definition rsplit1 :: "string \<Rightarrow> string \<times> string" where
  "rsplit1 s =
     (rev (tl (dropWhile (\<lambda>c. c \<noteq> CHR ''.'') (rev s))),
      rev (takeWhile (\<lambda>c. c \<noteq> CHR ''.'') (rev s)))"

fun strip_components :: "nat \<Rightarrow> string \<Rightarrow> string option" where
  "strip_components 0 p = Some p"
| "strip_components (Suc n) p =
     (if CHR ''.'' \<in> set p then strip_components n (fst (rsplit1 p)) else None)"

definition find_and_load :: "state \<Rightarrow> string \<Rightarrow> error + addr" where
  "find_and_load S name = (case sys_modules S name of
       Some m \<Rightarrow> Inr m
     | None \<Rightarrow> Inl (ImportError (''No module named '' @ name)))"

definition import_module :: "state \<Rightarrow> string \<Rightarrow> string option \<Rightarrow> error + addr" where
  "import_module S name package =
     (let level = length (takeWhile (\<lambda>c. c = CHR ''.'') name);
          rest = dropWhile (\<lambda>c. c = CHR ''.'') name
      in if level = 0 then
           (if name = [] then Inl (ValueError ''Empty module name'') else find_and_load S name)
         else
           (case package of
              None \<Rightarrow> Inl (TypeError ''the package argument is required'')
            | Some p \<Rightarrow>
               if p = [] then Inl (TypeError ''the package argument is required'')
               else
                 (case strip_components (level - 1) p of
                    None \<Rightarrow>
                      Inl (ImportError ''attempted relative import beyond top-level package'')
                  | Some base \<Rightarrow>
                      find_and_load S (if rest = [] then base else base @ ''.'' @ rest))))"

text \<open>
  \<^verbatim>\<open>
  def resolve(name, package=None):
      if isinstance(package, str):
          package = import_module(package)
      package_name = package.__name__ if package else None
      with suppress(AttributeError, ImportError):
          return import_module('{r}{n}'.format(r='.' if package else '', n=name), package_name)
      with suppress(ImportError):
          if '.' in name:
              mod, name = name.rsplit('.', maxsplit=1)
              package = import_module('{r}{n}'.format(r='.' if package else '', n=mod), package_name)
          elif not isinstance(package, ModuleType):
              package = import_module(package)
          with suppress(AttributeError):
              return getattr(package, name)
      raise ImportError('{name} is not a valid class or module name{within}'.format(
          name=name,
          within=', within {}'.format(package.__name__) if package else ''))
  \<close>
  In the \<^verbatim>\<open>elif\<close> branch \<^verbatim>\<open>package\<close> is \<^verbatim>\<open>None\<close> or an object that is no string,
  and \<^verbatim>\<open>import_module\<close> fails on it with an AttributeError (it has no
  \<^verbatim>\<open>startswith\<close>), which the enclosing \<^verbatim>\<open>suppress(ImportError)\<close> lets through.
\<close>

datatype package_arg = NoPackage | PackageName string | PackageObj addr

definition truthy_opt :: "(addr \<rightharpoonup> pyobj) \<Rightarrow> addr option \<Rightarrow> bool" where
  "truthy_opt h x = (case x of None \<Rightarrow> False | Some a \<Rightarrow> truthy h a)"

definition package_name_of :: "(addr \<rightharpoonup> pyobj) \<Rightarrow> addr option \<Rightarrow> error + string option" where
  "package_name_of h package =
     (case package of
        None \<Rightarrow> Inr None
      | Some a \<Rightarrow>
          if truthy h a
          then (case name_attr h a of
                  Some n \<Rightarrow> Inr (Some n)
                | None \<Rightarrow> Inl (AttributeError ''__name__''))
          else Inr None)"

definition not_found :: "state \<Rightarrow> string \<Rightarrow> addr option \<Rightarrow> addr outcome" where
  "not_found S name package =
     (case package_name_of (heap S) package of
        Inl e \<Rightarrow> Raised e S
      | Inr None \<Rightarrow> Raised (ImportError (name @ '' is not a valid class or module name'')) S
      | Inr (Some p) \<Rightarrow>
          Raised (ImportError (name @ '' is not a valid class or module name'' @ '', within '' @ p)) S)"

definition is_AttributeError :: "error \<Rightarrow> bool" where
  "is_AttributeError e = (case e of AttributeError _ \<Rightarrow> True | _ \<Rightarrow> False)"

definition is_ImportError :: "error \<Rightarrow> bool" where
  "is_ImportError e = (case e of ImportError _ \<Rightarrow> True | _ \<Rightarrow> False)"

definition getattr_or_not_found :: "state \<Rightarrow> string \<Rightarrow> addr \<Rightarrow> addr outcome" where
  "getattr_or_not_found S name package =
     (case py_getattr S package name of
        Return v S' \<Rightarrow> Return v S'
      | Raised e S' \<Rightarrow>
          if is_AttributeError e then not_found S' name (Some package) else Raised e S')"

definition resolve_in :: "state \<Rightarrow> string \<Rightarrow> addr option \<Rightarrow> addr outcome" where
  "resolve_in S name package =
     (case package_name_of (heap S) package of
        Inl e \<Rightarrow> Raised e S
      | Inr package_name \<Rightarrow>
         (let r = (if truthy_opt (heap S) package then ''.'' else []) in
          case import_module S (r @ name) package_name of
            Inr m \<Rightarrow> Return m S
          | Inl e \<Rightarrow>
             if \<not> (is_AttributeError e \<or> is_ImportError e) then Raised e S
             else if CHR ''.'' \<in> set name then
               (case rsplit1 name of
                  (prefix, name') \<Rightarrow>
                    (case import_module S (r @ prefix) package_name of
                       Inl e2 \<Rightarrow>
                         if is_ImportError e2 then not_found S name' package else Raised e2 S
                     | Inr package' \<Rightarrow> getattr_or_not_found S name' package'))
             else
               (case package of
                  None \<Rightarrow> Raised (AttributeError ''startswith'') S
                | Some a \<Rightarrow>
                    if is_module (heap S) a then getattr_or_not_found S name a
                    else Raised (AttributeError ''startswith'') S)))"

definition resolve :: "state \<Rightarrow> string \<Rightarrow> package_arg \<Rightarrow> addr outcome" where
  "resolve S name package =
     (case package of
        NoPackage \<Rightarrow> resolve_in S name None
      | PackageObj a \<Rightarrow> resolve_in S name (Some a)
      | PackageName p \<Rightarrow>
         (case import_module S p None of
            Inl e \<Rightarrow> Raised e S
          | Inr m \<Rightarrow> resolve_in S name (Some m)))"

section \<open>The entry point\<close>

text \<open>
  \<^verbatim>\<open>
  def patchy(target, source=None):
      if isinstance(target, str):
          target = resolve(target)
      if isinstance(source, str):
          source = resolve(source)
      if isinstance(target, ModuleType):
          return PatchModule(target, source)
      elif isinstance(target, type) and source:
          return PatchClass(target, source)
  \<close>
  An argument is an object or \<^verbatim>\<open>None\<close>; falling off the end returns \<^verbatim>\<open>None\<close>.
\<close>

definition resolve_if_str :: "state \<Rightarrow> addr option \<Rightarrow> addr option outcome" where
  "resolve_if_str S x =
     (case x of
        None \<Rightarrow> Return None S
      | Some a \<Rightarrow>
         (case heap S a of
            Some (PStr s) \<Rightarrow>
              (case resolve S s NoPackage of
                 Return r S' \<Rightarrow> Return (Some r) S'
               | Raised e S' \<Rightarrow> Raised e S')
          | _ \<Rightarrow> Return (Some a) S))"

definition dispatch :: "(addr \<rightharpoonup> pyobj) \<Rightarrow> addr option \<Rightarrow> addr option \<Rightarrow> session option" where
  "dispatch h tgt src =
     (case tgt of
        None \<Rightarrow> None
      | Some t \<Rightarrow>
          if is_module h t then Some (PatchModule t src ''_'')
          else if is_class h t \<and> truthy_opt h src then Some (PatchClass t src)
          else None)"

definition patchy :: "state \<Rightarrow> addr option \<Rightarrow> addr option \<Rightarrow> session option outcome" where
  "patchy S tgt src =
     (case resolve_if_str S tgt of
        Raised e S1 \<Rightarrow> Raised e S1
      | Return t S1 \<Rightarrow>
         (case resolve_if_str S1 src of
            Raised e S2 \<Rightarrow> Raised e S2
          | Return s S2 \<Rightarrow> Return (dispatch (heap S2) t s) S2))"

section \<open>A small world of objects\<close>

text \<open>
  Concrete objects on which the operations are evaluated: a target module \<^verbatim>\<open>A\<close> and a
  source module \<^verbatim>\<open>B\<close>, each with a function \<^verbatim>\<open>f\<close>, a list \<^verbatim>\<open>n\<close> and a dict
  \<^verbatim>\<open>d\<close>; the classes \<^verbatim>\<open>Foo\<close> and \<^verbatim>\<open>Bar\<close> with their \<^verbatim>\<open>greet\<close> methods and an
  instance of \<^verbatim>\<open>Foo\<close>; the modules \<^verbatim>\<open>os\<close> and \<^verbatim>\<open>os.path\<close> (whose
  \<^verbatim>\<open>__name__\<close> is \<^verbatim>\<open>posixpath\<close>); an empty list, a \<^verbatim>\<open>classmethod\<close> and a
  \<^verbatim>\<open>staticmethod\<close> object, and an instance of a class with \<^verbatim>\<open>__call__\<close>.
\<close>

definition example_heap :: "addr \<rightharpoonup> pyobj" where
  "example_heap = map_of
     [(0, PModule ''A'' [(''f'', 2), (''n'', 6), (''d'', 12)]),
      (1, PModule ''B'' [(''f'', 3), (''n'', 7), (''d'', 13)]),
      (2, PFunction ''f'' 4),
      (3, PFunction ''f'' 5),
      (4, PCode [] (Returns ''old'')),
      (5, PCode [] (SuperThenAppend ''!'')),
      (6, PList [8, 9]),
      (7, PList [10, 11]),
      (8, PInt 1),
      (9, PInt 2),
      (10, PInt 3),
      (11, PInt 4),
      (12, PDict [(''a'', 8)]),
      (13, PDict [(''b'', 9)]),
      (14, PStr ''f''),
      (15, PStr ''n''),
      (16, PStr ''d''),
      (17, PModule ''C'' [(''f'', 18)]),
      (18, PFunction ''f'' 19),
      (19, PCode [] (Returns ''other'')),
      (20, PClass ''Foo'' ''app'' [] [(''greet'', 22)]),
      (21, PClass ''Bar'' ''app_patch'' [] [(''greet'', 23)]),
      (22, PFunction ''greet'' 24),
      (23, PFunction ''greet'' 25),
      (24, PCode [''self''] (Returns ''hi'')),
      (25, PCode [''self''] (SuperThenAppend ''!'')),
      (26, PInstance 20 []),
      (27, PStr ''greet''),
      (28, PClassMethod 22),
      (29, PMethod 3 26),
      (30, PModule ''os'' [(''path'', 31)]),
      (31, PModule ''posixpath'' [(''join'', 32)]),
      (32, PFunction ''join'' 33),
      (33, PCode [''a''] (Returns [])),
      (34, PStr ''os.path''),
      (35, PStr ''nosuch.thing''),
      (36, PList []),
      (37, PStaticMethod 18),
      (38, PClass ''Caller'' ''app'' [] [(''__call__'', 22)]),
      (39, PInstance 38 [])]"

definition example_state :: state where
  "example_state =
     \<lparr>heap = example_heap, fresh = 40, patchy_records = Map.empty,
      sys_modules = map_of [(''A'', 0), (''B'', 1), (''C'', 17), (''os'', 30),
                            (''os.path'', 31), (''posixpath'', 31)]\<rparr>"

section \<open>Properties of PatchyRecords\<close>

lemma state_of_simps [simp]: "state_of (Return x S) = S" "state_of (Raised e S) = S"
  by (simp_all add: state_of_def)

lemma heap_records_setitem [simp]: "heap (records_setitem S k v) = heap S"
  by (simp add: records_setitem_def)








section \<open>Frame properties of the apply engine\<close>

lemma own_dict_cases:
  assumes "own_dict h (Some a) = Some d"
  obtains (mod) nm where "h a = Some (PModule nm d)"
  | (cls) nm md m where "h a = Some (PClass nm md m d)"
  | (inst) c where "h a = Some (PInstance c d)"
proof (cases "h a")
  case None
  then show ?thesis using assms by (simp add: own_dict_def)
next
  case (Some ob)
  then show ?thesis using assms mod cls inst
    by (cases ob) (simp_all add: own_dict_def)
qed

lemma py_setattr_own:
  assumes "own_dict (heap S) (Some a) = Some d"
  obtains ob where "heap S a = Some ob" "with_dict ob d = ob"
    and "py_setattr S a n v
           = Return () (S\<lparr>heap := (heap S)(a \<mapsto> with_dict ob (AList.update n v d))\<rparr>)"
  using assms
  by (rule own_dict_cases) (simp_all add: py_setattr_def with_dict_def)

lemma py_setattr_none:
  assumes "own_dict (heap S) (Some a) = None"
  shows "py_setattr S a n v = Raised (AttributeError n) S"
proof (cases "heap S a")
  case None
  then show ?thesis by (simp add: py_setattr_def)
next
  case (Some ob)
  then show ?thesis using assms by (cases ob) (simp_all add: py_setattr_def own_dict_def)
qed


lemma py_setattr_Return:
  assumes "py_setattr S a n v = Return u S'"
  obtains ob d where "heap S a = Some ob" "own_dict (heap S) (Some a) = Some d"
    and "S' = S\<lparr>heap := (heap S)(a \<mapsto> with_dict ob (AList.update n v d))\<rparr>"
proof (cases "own_dict (heap S) (Some a)")
  case None
  then show ?thesis using py_setattr_none [OF None, of n v] assms by simp
next
  case (Some d)
  show ?thesis
    by (rule py_setattr_own [OF Some, of n v]) (use assms Some that in auto)
qed

lemma py_setattr_records:
  "patchy_records (state_of (py_setattr S a n v)) = patchy_records S"
proof (cases "own_dict (heap S) (Some a)")
  case None
  then show ?thesis by (simp add: py_setattr_none)
next
  case (Some d)
  show ?thesis by (rule py_setattr_own [OF Some, of n v]) simp
qed

text \<open>What replacing the dict of an object leaves as it was.\<close>

lemma direct_name_with_dict: "direct_name (with_dict ob d) = direct_name ob"
  by (cases ob) (simp_all add: direct_name_def with_dict_def)

lemma obj_name_upd:
  assumes "h a = Some ob"
  shows "obj_name (h(a \<mapsto> with_dict ob d)) x = obj_name h x"
  using assms by (cases "x = a") (simp_all add: obj_name_def direct_name_with_dict)

lemma func_name_upd:
  assumes a: "h a = Some ob" and d: "own_dict h (Some a) = Some d0"
  shows "func_name (h(a \<mapsto> with_dict ob d)) x = func_name h x"
proof (cases "x = a")
  case True
  show ?thesis
    by (rule own_dict_cases [OF d])
       (use a True in \<open>simp_all add: func_name_def with_dict_def obj_name_def direct_name_def\<close>)
next
  case False
  show ?thesis
  proof (cases "h x")
    case None
    then show ?thesis using False a by (simp add: func_name_def obj_name_upd)
  next
    case (Some ox)
    then show ?thesis using False a
      by (cases ox) (simp_all add: func_name_def obj_name_upd)
  qed
qed

lemma name_attr_upd:
  assumes a: "h a = Some ob" and d: "own_dict h (Some a) = Some d0"
  shows "name_attr (h(a \<mapsto> with_dict ob d)) x = name_attr h x"
proof (cases "x = a")
  case True
  have "func_name (h(a \<mapsto> with_dict ob d)) a = func_name h a"
    by (rule func_name_upd [OF a d])
  note fn = this
  show ?thesis
    by (rule own_dict_cases [OF d])
       (use a True fn in \<open>simp_all add: name_attr_def with_dict_def\<close>)
next
  case False
  show ?thesis
  proof (cases "h x")
    case None
    then show ?thesis using False by (simp add: name_attr_def func_name_upd [OF a d])
  next
    case (Some ox)
    then show ?thesis using False
      by (cases ox) (simp_all add: name_attr_def func_name_upd [OF a d])
  qed
qed

lemma code_attr_upd:
  assumes "code_attr h a = None" "code_attr (h(a \<mapsto> ob)) a = None"
  shows "code_attr (h(a \<mapsto> ob)) x = code_attr h x"
proof (cases "x = a")
  case True
  then show ?thesis using assms by simp
next
  case False
  have nf: "\<And>n c. h a \<noteq> Some (PFunction n c)" "\<And>n c. ob \<noteq> PFunction n c"
    using assms by (auto simp: code_attr_def)
  show ?thesis
  proof (cases "h x")
    case None
    then show ?thesis using False by (simp add: code_attr_def)
  next
    case (Some ox)
    show ?thesis
    proof (cases ox)
      case (PMethod f s)
      show ?thesis
      proof (cases "f = a")
        case True
        have "(case h a of Some (PFunction n c) \<Rightarrow> Some c | _ \<Rightarrow> None) = None"
          using nf(1) by (simp split: option.split pyobj.split)
        moreover have "(case ob of PFunction n c \<Rightarrow> Some c | _ \<Rightarrow> None) = None"
          using nf(2) by (simp split: pyobj.split)
        ultimately show ?thesis
          using Some PMethod True \<open>x \<noteq> a\<close> by (simp add: code_attr_def)
      next
        case False
        then show ?thesis using Some PMethod \<open>x \<noteq> a\<close> by (simp add: code_attr_def)
      qed
    qed (use Some False in \<open>simp_all add: code_attr_def\<close>)
  qed
qed

lemma code_attr_with_dict:
  assumes a: "h a = Some ob" and d: "own_dict h (Some a) = Some d0"
  shows "code_attr (h(a \<mapsto> with_dict ob d)) x = code_attr h x"
proof (rule code_attr_upd)
  show "code_attr h a = None"
    by (rule own_dict_cases [OF d]) (simp_all add: code_attr_def)
  show "code_attr (h(a \<mapsto> with_dict ob d)) a = None"
    by (rule own_dict_cases [OF d]) (use a in \<open>simp_all add: code_attr_def with_dict_def\<close>)
qed

lemma strip_decorator_with_dict:
  assumes a: "h a = Some ob" and d: "own_dict h (Some a) = Some d0"
  shows "strip_decorator (h(a \<mapsto> with_dict ob d)) x = strip_decorator h x"
proof (cases "x = a")
  case True
  show ?thesis
    by (rule own_dict_cases [OF d])
       (use a True in \<open>simp_all add: strip_decorator_def with_dict_def\<close>)
next
  case False
  then show ?thesis by (simp add: strip_decorator_def)
qed

lemma own_dict_with_dict:
  assumes a: "h a = Some ob" and d: "own_dict h (Some a) = Some d0"
  shows "own_dict (h(a \<mapsto> with_dict ob d)) (Some x)
           = (if x = a then Some d else own_dict h (Some x))"
proof (cases "x = a")
  case True
  show ?thesis
    by (rule own_dict_cases [OF d]) (use a True in \<open>simp_all add: own_dict_def with_dict_def\<close>)
next
  case False
  then show ?thesis by (simp add: own_dict_def)
qed

lemma kind_with_dict:
  assumes a: "h a = Some ob" and d: "own_dict h (Some a) = Some d0"
  shows "is_module (h(a \<mapsto> with_dict ob d)) x = is_module h x"
    and "is_class (h(a \<mapsto> with_dict ob d)) x = is_class h x"
    and "mro_of (h(a \<mapsto> with_dict ob d)) x = mro_of h x"
proof -
  show "is_module (h(a \<mapsto> with_dict ob d)) x = is_module h x"
    by (rule own_dict_cases [OF d])
       (use a in \<open>simp_all add: is_module_def with_dict_def\<close>)
  show "is_class (h(a \<mapsto> with_dict ob d)) x = is_class h x"
    by (rule own_dict_cases [OF d])
       (use a in \<open>simp_all add: is_class_def with_dict_def\<close>)
  show "mro_of (h(a \<mapsto> with_dict ob d)) x = mro_of h x"
    by (rule own_dict_cases [OF d])
       (use a in \<open>simp_all add: mro_of_def with_dict_def\<close>)
qed

lemma class_dict_with_dict:
  assumes a: "h a = Some ob" and d: "own_dict h (Some a) = Some d0"
  shows "class_dict (h(a \<mapsto> with_dict ob d)) c
           = (if c = a then (case class_dict h a of Some _ \<Rightarrow> Some d | None \<Rightarrow> None)
              else class_dict h c)"
    and "class_dict h a = Some d1 \<Longrightarrow> d1 = d0"
proof -
  show "class_dict (h(a \<mapsto> with_dict ob d)) c
           = (if c = a then (case class_dict h a of Some _ \<Rightarrow> Some d | None \<Rightarrow> None)
              else class_dict h c)"
    by (rule own_dict_cases [OF d])
       (use a in \<open>simp_all add: class_dict_def with_dict_def\<close>)
  show "class_dict h a = Some d1 \<Longrightarrow> d1 = d0"
    by (rule own_dict_cases [OF d]) (simp_all add: class_dict_def)
qed

lemma mro_lookup_mono:
  assumes a: "h a = Some ob" and d: "own_dict h (Some a) = Some d0"
    and l: "mro_lookup h cs k \<noteq> None"
  shows "mro_lookup (h(a \<mapsto> with_dict ob (AList.update n v d0))) cs k \<noteq> None"
proof -
  define h' where "h' = h(a \<mapsto> with_dict ob (AList.update n v d0))"
  have cd: "\<And>c. class_dict h' c
           = (if c = a then (case class_dict h a of Some _ \<Rightarrow> Some (AList.update n v d0)
                             | None \<Rightarrow> None)
              else class_dict h c)"
    unfolding h'_def by (rule class_dict_with_dict(1) [OF a d])
  have "mro_lookup h' cs k \<noteq> None"
    using l
  proof (induction cs)
    case Nil
    then show ?case by simp
  next
    case (Cons c cs)
    show ?case
    proof (cases "class_dict h c")
      case None
      then have "class_dict h' c = None" by (auto simp: cd)
      then show ?thesis using Cons None by simp
    next
      case (Some dc)
      show ?thesis
      proof (cases "c = a")
        case False
        then have "class_dict h' c = Some dc" using Some by (simp add: cd)
        then show ?thesis using Cons Some by (cases "map_of dc k") simp_all
      next
        case True
        then have dc: "dc = d0" using Some class_dict_with_dict(2) [OF a d] by simp
        have c': "class_dict h' c = Some (AList.update n v d0)"
          using True Some by (simp add: cd)
        show ?thesis
        proof (cases "map_of d0 k")
          case None
          then show ?thesis using Cons Some dc c'
            by (cases "k = n") (simp_all add: update_conv')
        next
          case (Some y)
          then show ?thesis using c'
            by (cases "k = n") (simp_all add: update_conv')
        qed
      qed
    qed
  qed
  then show ?thesis by (simp add: h'_def)
qed

lemma callable_mono:
  assumes a: "h a = Some ob" and d: "own_dict h (Some a) = Some d0"
    and c: "callable h x"
  shows "callable (h(a \<mapsto> with_dict ob (AList.update n v d0))) x"
proof -
  let ?h = "h(a \<mapsto> with_dict ob (AList.update n v d0))"
  have cl: "\<And>c. class_lookup h c ''__call__'' \<noteq> None \<Longrightarrow> class_lookup ?h c ''__call__'' \<noteq> None"
    unfolding class_lookup_def kind_with_dict(3) [OF a d]
    by (rule mro_lookup_mono [OF a d])
  show ?thesis
  proof (cases "x = a")
    case True
    show ?thesis
      by (rule own_dict_cases [OF d])
         (use a c cl True in \<open>simp_all add: callable_def with_dict_def\<close>)
  next
    case False
    show ?thesis
    proof (cases "h x")
      case None
      then show ?thesis using c by (simp add: callable_def)
    next
      case (Some ox)
      then show ?thesis using c cl False
        by (cases ox) (simp_all add: callable_def)
    qed
  qed
qed

lemma getattr_static_own:
  assumes "own_dict h (Some a) = Some d" "map_of d n = Some v"
  shows "getattr_static h a n = Some v"
  by (rule own_dict_cases [OF assms(1)])
     (use assms(2) in \<open>simp_all add: getattr_static_def class_lookup_def class_dict_def\<close>)

lemma getattr_static_has_dict:
  assumes "getattr_static h a n = Some v"
  shows "own_dict h (Some a) \<noteq> None"
proof (cases "h a")
  case None
  then show ?thesis using assms by (simp add: getattr_static_def)
next
  case (Some ob)
  then show ?thesis using assms
    by (cases ob) (simp_all add: getattr_static_def own_dict_def)
qed

lemma py_setattr_norm_key:
  assumes "py_setattr S a n v = Return u S'"
  shows "norm_key (heap S') x = norm_key (heap S) x"
  by (rule py_setattr_Return [OF assms]) (simp add: norm_key_def code_attr_with_dict)

lemma py_setattr_strip:
  assumes "py_setattr S a n v = Return u S'"
  shows "strip_decorator (heap S') x = strip_decorator (heap S) x"
  by (rule py_setattr_Return [OF assms]) (simp add: strip_decorator_with_dict)

lemma py_setattr_name_attr:
  assumes "py_setattr S a n v = Return u S'"
  shows "name_attr (heap S') x = name_attr (heap S) x"
  by (rule py_setattr_Return [OF assms]) (simp add: name_attr_upd)

lemma py_setattr_callable_mono:
  assumes "py_setattr S a n v = Return u S'" "callable (heap S) x"
  shows "callable (heap S') x"
  by (rule py_setattr_Return [OF assms(1)]) (use assms(2) in \<open>simp add: callable_mono\<close>)

lemma py_setattr_static:
  assumes "py_setattr S a n v = Return u S'"
  shows "getattr_static (heap S') a n = Some v"
proof (rule py_setattr_Return [OF assms])
  fix ob d
  assume h: "heap S a = Some ob" "own_dict (heap S) (Some a) = Some d"
    and s: "S' = S\<lparr>heap := (heap S)(a \<mapsto> with_dict ob (AList.update n v d))\<rparr>"
  have "own_dict (heap S') (Some a) = Some (AList.update n v d)"
    using s own_dict_with_dict [OF h, of "AList.update n v d" a] by simp
  then show ?thesis by (rule getattr_static_own) (simp add: update_conv')
qed

lemma py_setattr_defined:
  assumes "getattr_static (heap S) a n \<noteq> None"
  shows "\<exists>S'. py_setattr S a n v = Return () S'"
proof -
  obtain d where d: "own_dict (heap S) (Some a) = Some d"
    using assms getattr_static_has_dict [of "heap S" a n] by auto
  show ?thesis by (rule py_setattr_own [OF d, of n v]) simp
qed

lemma bound_method_records:
  "patchy_records (state_of (bound_method S f x)) = patchy_records S"
  by (simp add: bound_method_def alloc_def)

lemma bind_class_attr_records:
  "patchy_records (state_of (bind_class_attr S c v)) = patchy_records S"
  by (simp add: bind_class_attr_def bound_method_records split: option.split pyobj.split)

lemma bind_instance_attr_records:
  "patchy_records (state_of (bind_instance_attr S i c v)) = patchy_records S"
  by (simp add: bind_instance_attr_def bound_method_records split: option.split pyobj.split)

lemma py_getattr_records:
  "patchy_records (state_of (py_getattr S a n)) = patchy_records S"
  by (simp add: py_getattr_def bind_class_attr_records bind_instance_attr_records
           split: option.split pyobj.split)

lemma dict_update_records:
  "patchy_records (state_of (dict_update S d v)) = patchy_records S"
  by (simp add: dict_update_def split: option.split pyobj.split)

lemma list_extend_records:
  "patchy_records (state_of (list_extend S d v)) = patchy_records S"
  by (simp add: list_extend_def split: option.split pyobj.split)

lemma merge_step_records:
  "patchy_records (state_of (merge_step S tgt m attr v old)) = patchy_records S"
proof (cases "py_getattr S tgt attr")
  case (Return x T)
  then have "patchy_records T = patchy_records S"
    using py_getattr_records [of S tgt attr] by simp
  then show ?thesis
    using Return dict_update_records [of T x v] list_extend_records [of T x v]
    by (simp add: merge_step_def)
next
  case (Raised e T)
  then have "patchy_records T = patchy_records S"
    using py_getattr_records [of S tgt attr] by simp
  then show ?thesis using Raised by (simp add: merge_step_def)
qed

lemma callable_not_container:
  assumes "callable h v"
  shows "\<not> is_dict h v" "\<not> is_list h v"
proof -
  show "\<not> is_dict h v"
  proof (cases "h v")
    case None
    then show ?thesis by (simp add: is_dict_def)
  next
    case (Some ob)
    then show ?thesis using assms by (cases ob) (simp_all add: is_dict_def callable_def)
  qed
  show "\<not> is_list h v"
  proof (cases "h v")
    case None
    then show ?thesis by (simp add: is_list_def)
  next
    case (Some ob)
    then show ?thesis using assms by (cases ob) (simp_all add: is_list_def callable_def)
  qed
qed

lemma merge_step_callable:
  assumes "callable (heap S) v"
  shows "merge_step S tgt m attr v old = Return () S"
  using callable_not_container [OF assms] by (simp add: merge_step_def)

lemma source_getattr_records:
  "patchy_records (state_of (source_getattr S src n)) = patchy_records S"
  by (simp add: source_getattr_def py_getattr_records split: option.split)

lemma normalize_attrs_records:
  "patchy_records (state_of (normalize_attrs S src attrs k)) = patchy_records S"
proof (induction attrs arbitrary: S k)
  case Nil
  then show ?case by simp
next
  case (Cons a attrs)
  show ?case
  proof (cases "name_attr (heap S) a")
    case (Some nm)
    then show ?thesis using Cons.IH by simp
  next
    case None
    show ?thesis
    proof (cases "heap S a")
      case None
      then show ?thesis using \<open>name_attr (heap S) a = None\<close> by simp
    next
      case (Some ob)
      show ?thesis
      proof (cases ob)
        case (PStr s)
        show ?thesis
        proof (cases "source_getattr S src s")
          case (Return x T)
          then have "patchy_records T = patchy_records S"
            using source_getattr_records [of S src s] by simp
          then show ?thesis
            using Return Some PStr \<open>name_attr (heap S) a = None\<close> Cons.IH by simp
        next
          case (Raised e T)
          then have "patchy_records T = patchy_records S"
            using source_getattr_records [of S src s] by simp
          then show ?thesis
            using Raised Some PStr \<open>name_attr (heap S) a = None\<close> by simp
        qed
      qed (use Some \<open>name_attr (heap S) a = None\<close> in simp_all)
    qed
  qed
qed


lemma preserve_old_keeps:
  assumes "\<not> duplicate_patch S tgt attr v" "patchy_records S k = Some p"
  shows "patchy_records (preserve_old S v (getattr_static (heap S) tgt attr)) k = Some p"
proof (cases "getattr_static (heap S) tgt attr")
  case None
  then show ?thesis using assms by (simp add: preserve_old_def)
next
  case (Some old)
  show ?thesis
  proof (cases "callable (heap S) v \<and> callable (heap S) old")
    case True
    then have "patchy_records S (norm_key (heap S) v) = None"
      using assms(1) Some by (simp add: duplicate_patch_def callable_opt_def records_contains_def)
    then have "k \<noteq> norm_key (heap S) v" using assms(2) by auto
    then show ?thesis using Some True assms(2)
      by (simp add: preserve_old_def records_setitem_def)
  next
    case False
    then show ?thesis using Some assms(2) by (auto simp: preserve_old_def)
  qed
qed

lemma apply_items_keeps:
  "patchy_records S k = Some p \<Longrightarrow>
   patchy_records (state_of (apply_items tgt m S items)) k = Some p"
proof (induction items arbitrary: S)
  case Nil
  then show ?case by simp
next
  case (Cons item items)
  obtain attr v where item: "item = (attr, v)" by (cases item)
  let ?old = "getattr_static (heap S) tgt attr"
  show ?case
  proof (cases "duplicate_patch S tgt attr v")
    case True
    then show ?thesis using Cons.prems item by simp
  next
    case False
    let ?S1 = "preserve_old S v ?old"
    have k1: "patchy_records ?S1 k = Some p"
      using preserve_old_keeps [OF False Cons.prems] .
    show ?thesis
    proof (cases "merge_step ?S1 tgt m attr v ?old")
      case (Raised e S2)
      then have "patchy_records S2 = patchy_records ?S1"
        using merge_step_records [of ?S1 tgt m attr v ?old] by simp
      then show ?thesis using False item Raised k1 by simp
    next
      case (Return u S2)
      then have k2: "patchy_records S2 k = Some p"
        using merge_step_records [of ?S1 tgt m attr v ?old] k1 by simp
      show ?thesis
      proof (cases "py_setattr S2 tgt attr v")
        case (Raised e S3)
        then have "patchy_records S3 k = Some p"
          using k2 py_setattr_records [of S2 tgt attr v] by simp
        then show ?thesis using False item Return Raised by simp
      next
        case Ret: (Return u' S3)
        then have "patchy_records S3 k = Some p"
          using k2 py_setattr_records [of S2 tgt attr v] by simp
        then have "patchy_records (state_of (apply_items tgt m S3 items)) k = Some p"
          by (rule Cons.IH)
        then show ?thesis using False item Return Ret by simp
      qed
    qed
  qed
qed

lemma apply_patch_keeps:
  assumes a: "patchy_records S k = Some p"
  shows "patchy_records (state_of (apply_patch S ps attrs kattrs m)) k = Some p"
proof (cases "attrs = [] \<and> kattrs = None")
  case True
  then show ?thesis using a by (simp add: apply_patch_def)
next
  case False
  let ?k0 = "case kattrs of None \<Rightarrow> [] | Some k \<Rightarrow> k"
  have n: "patchy_records (state_of (normalize_attrs S (source ps) attrs ?k0)) = patchy_records S"
    by (rule normalize_attrs_records)
  show ?thesis
  proof (cases "normalize_attrs S (source ps) attrs ?k0")
    case (Return ks S')
    then have "patchy_records S' k = Some p" using n a by simp
    then have "patchy_records (state_of (apply_items (target ps) m S' ks)) k = Some p"
      by (rule apply_items_keeps)
    then show ?thesis using Return False by (auto simp: apply_patch_def)
  next
    case (Raised e S')
    then have "patchy_records S' k = Some p" using n a by simp
    then show ?thesis using Raised False by (auto simp: apply_patch_def)
  qed
qed

lemma apply_items_cut:
  "duplicate_patch (state_of (apply_items tgt m S pre)) tgt attr v \<Longrightarrow>
   apply_items tgt m S (pre @ (attr, v) # rest) = apply_items tgt m S pre"
proof (induction pre arbitrary: S)
  case Nil
  then show ?case by simp
next
  case (Cons item pre)
  obtain a w where item: "item = (a, w)" by (cases item)
  let ?old = "getattr_static (heap S) tgt a"
  show ?case
  proof (cases "duplicate_patch S tgt a w")
    case True
    then show ?thesis using item by simp
  next
    case False
    show ?thesis
    proof (cases "merge_step (preserve_old S w ?old) tgt m a w ?old")
      case (Raised e S2)
      then show ?thesis using False item by simp
    next
      case (Return u S2)
      show ?thesis
      proof (cases "py_setattr S2 tgt a w")
        case (Raised e S3)
        then show ?thesis using False item Return by simp
      next
        case Ret: (Return u' S3)
        have "duplicate_patch (state_of (apply_items tgt m S3 pre)) tgt attr v"
          using Cons.prems False item Return Ret by simp
        then have "apply_items tgt m S3 (pre @ (attr, v) # rest) = apply_items tgt m S3 pre"
          by (rule Cons.IH)
        then show ?thesis using False item Return Ret by simp
      qed
    qed
  qed
qed

lemmas eval_defs =
  example_state_def example_heap_def records_setitem_def records_contains_def records_getitem_def
  norm_key_def code_attr_def strip_decorator_def callable_def callable_opt_def name_attr_def
  func_name_def obj_name_def direct_name_def class_dict_def mro_of_def
  getattr_static_def class_lookup_def py_getattr_def py_setattr_def bind_class_attr_def
  bind_instance_attr_def bound_method_def alloc_def duplicate_patch_def preserve_old_def
  merge_step_def dict_update_def list_extend_def is_dict_def is_list_def is_dict_opt_def
  is_list_opt_def is_module_def is_class_def source_getattr_def apply_patch_def add_def merge_def

lemma apply_single_twice:
  assumes cv: "callable (heap S) v"
    and old: "getattr_static (heap S) tgt attr = Some old"
    and co: "callable (heap S) old"
  shows "\<exists>S1. apply_items tgt m S [(attr, v)] = Return () S1
           \<and> apply_items tgt m S1 [(attr, v)] = Return () S1
           \<and> records_contains S1 v
           \<and> (\<not> records_contains S v \<longrightarrow>
                 patchy_records S1
                   = (patchy_records S)(norm_key (heap S) v \<mapsto> strip_decorator (heap S) old))"
proof (cases "records_contains S v")
  case True
  then have "duplicate_patch S tgt attr v"
    using cv old co by (simp add: duplicate_patch_def callable_opt_def)
  then show ?thesis using True by simp
next
  case False
  then have nd: "\<not> duplicate_patch S tgt attr v" by (simp add: duplicate_patch_def)
  let ?Sa = "records_setitem S v old"
  have pa: "preserve_old S v (getattr_static (heap S) tgt attr) = ?Sa"
    using cv old co by (simp add: preserve_old_def)
  have ms: "merge_step ?Sa tgt m attr v (Some old) = Return () ?Sa"
    using cv by (simp add: merge_step_callable)
  obtain S1 where st: "py_setattr ?Sa tgt attr v = Return () S1"
    using py_setattr_defined [of ?Sa tgt attr v] old by auto
  have first: "apply_items tgt m S [(attr, v)] = Return () S1"
    using nd pa ms st old by simp
  have r1: "patchy_records S1
              = (patchy_records S)(norm_key (heap S) v \<mapsto> strip_decorator (heap S) old)"
    using py_setattr_records [of ?Sa tgt attr v] st by (simp add: records_setitem_def)
  have c1: "callable (heap S1) v" using py_setattr_callable_mono [OF st] cv by simp
  have g1: "getattr_static (heap S1) tgt attr = Some v" using py_setattr_static [OF st] .
  have n1: "norm_key (heap S1) v = norm_key (heap S) v"
    using py_setattr_norm_key [OF st] by simp
  have rc: "records_contains S1 v"
    using n1 r1 by (simp add: records_contains_def)
  then have "duplicate_patch S1 tgt attr v"
    using c1 g1 by (simp add: duplicate_patch_def callable_opt_def)
  then have second: "apply_items tgt m S1 [(attr, v)] = Return () S1" by simp
  show ?thesis using first second r1 rc False by blast
qed

lemma apply_patch_kattrs_only:
  "apply_patch S p [] (Some k) m = apply_items (target p) m S k"
  by (simp add: apply_patch_def)

section \<open>Properties of apply\<close>

text \<open>
  Claim C3. No apply call changes a predecessor that the registry already holds, so over
  any sequence of applies an installed callable keeps the predecessor recorded first.
  And applying the same callable under the same name twice, where the target held a
  callable before: the second apply returns at the duplicate guard and changes nothing,
  and the registry then has the entry for the installed callable, which (if the first
  apply made it) holds the callable that the target had before, stripped of a
  \<^verbatim>\<open>classmethod\<close>/\<^verbatim>\<open>staticmethod\<close> wrapper.
\<close>

theorem apply_twice_one_entry:
  "(patchy_records S k = Some p \<longrightarrow>
      patchy_records (state_of (apply_patch S ps attrs kattrs m)) k = Some p)
   \<and> (callable (heap T) v \<and> getattr_static (heap T) (target q) attr = Some old
        \<and> callable (heap T) old \<longrightarrow>
      (\<exists>T1. apply_patch T q [] (Some [(attr, v)]) mg = Return () T1
           \<and> apply_patch T1 q [] (Some [(attr, v)]) mg = Return () T1
           \<and> records_contains T1 v
           \<and> (\<not> records_contains T v \<longrightarrow>
                 patchy_records T1
                   = (patchy_records T)(norm_key (heap T) v \<mapsto> strip_decorator (heap T) old))))"
proof (intro conjI impI)
  assume "patchy_records S k = Some p"
  then show "patchy_records (state_of (apply_patch S ps attrs kattrs m)) k = Some p"
    by (rule apply_patch_keeps)
next
  assume a: "callable (heap T) v \<and> getattr_static (heap T) (target q) attr = Some old
        \<and> callable (heap T) old"
  then obtain T1 where t: "apply_items (target q) mg T [(attr, v)] = Return () T1"
      "apply_items (target q) mg T1 [(attr, v)] = Return () T1"
      "records_contains T1 v"
      "\<not> records_contains T v \<longrightarrow>
         patchy_records T1
           = (patchy_records T)(norm_key (heap T) v \<mapsto> strip_decorator (heap T) old)"
    using apply_single_twice [of T v "target q" attr old mg] by blast
  then show "\<exists>T1. apply_patch T q [] (Some [(attr, v)]) mg = Return () T1
           \<and> apply_patch T1 q [] (Some [(attr, v)]) mg = Return () T1
           \<and> records_contains T1 v
           \<and> (\<not> records_contains T v \<longrightarrow>
                 patchy_records T1
                   = (patchy_records T)(norm_key (heap T) v \<mapsto> strip_decorator (heap T) old))"
    by (auto simp: apply_patch_kattrs_only)
qed

theorem apply_twice_one_entry_witness:
  "patchy_records (records_setitem example_state 3 2) 5 = Some 2
   \<and> patchy_records (state_of (apply_patch (records_setitem example_state 3 2)
         (PatchModule 17 (Some 1) ''_'') [14] None False)) 5 = Some 2
   \<and> callable (heap example_state) 3
   \<and> getattr_static (heap example_state) (target (PatchModule 0 (Some 1) ''_'')) ''f'' = Some 2
   \<and> callable (heap example_state) 2
   \<and> \<not> records_contains example_state 3
   \<and> (\<exists>T1. apply_patch example_state (PatchModule 0 (Some 1) ''_'') [] (Some [(''f'', 3)]) False
                = Return () T1
           \<and> apply_patch T1 (PatchModule 0 (Some 1) ''_'') [] (Some [(''f'', 3)]) False
                = Return () T1
           \<and> getattr_static (heap T1) 0 ''f'' = Some 3
           \<and> patchy_records T1 = [5 \<mapsto> 2])"
proof -
  have pre: "patchy_records (records_setitem example_state 3 2) 5 = Some 2"
    "callable (heap example_state) 3 \<and>
     getattr_static (heap example_state) (target (PatchModule 0 (Some 1) ''_'')) ''f'' = Some 2
     \<and> callable (heap example_state) 2"
    "\<not> records_contains example_state 3"
    "norm_key (heap example_state) 3 = 5" "strip_decorator (heap example_state) 2 = 2"
    "patchy_records example_state = Map.empty"
    by (simp_all add: eval_defs)
  have run: "apply_patch example_state (PatchModule 0 (Some 1) ''_'') [] (Some [(''f'', 3)]) False
     = Return () (example_state\<lparr>heap := example_heap(0 \<mapsto>
          PModule ''A'' [(''f'', 3), (''n'', 6), (''d'', 12)]), patchy_records := [5 \<mapsto> 2]\<rparr>)"
    by (simp add: eval_defs)
  show ?thesis
    using apply_twice_one_entry
            [of "records_setitem example_state 3 2" 5 2 "PatchModule 17 (Some 1) ''_''"
                "[14]" None False example_state 3 "PatchModule 0 (Some 1) ''_''" "''f''" 2 False]
          pre run
    by (simp add: getattr_static_def)
qed

text \<open>
  Claim C4. When the loop of \<^verbatim>\<open>apply\<close> reaches an entry whose value and whose
  current target value are both callable and whose value is already a key of the
  registry, the call returns there: the outcome of the whole batch is the outcome of the
  entries before it, so that entry is not written and no later entry is processed.
\<close>

theorem apply_returns_at_duplicate:
  "(duplicate_patch S tgt attr v \<longrightarrow> apply_items tgt m S ((attr, v) # rest) = Return () S)
   \<and> (duplicate_patch (state_of (apply_items tgt m S pre)) tgt attr v \<longrightarrow>
        apply_items tgt m S (pre @ (attr, v) # rest) = apply_items tgt m S pre)
   \<and> (duplicate_patch (state_of (apply_patch S p [] (Some pre) m)) (target p) attr v \<longrightarrow>
        apply_patch S p [] (Some (pre @ (attr, v) # rest)) m = apply_patch S p [] (Some pre) m)"
  by (simp add: apply_items_cut apply_patch_kattrs_only)

theorem apply_returns_at_duplicate_witness:
  "duplicate_patch (records_setitem example_state 3 2) 17 ''f'' 3
   \<and> apply_items 17 False (records_setitem example_state 3 2) [(''f'', 3), (''z'', 9)]
       = Return () (records_setitem example_state 3 2)
   \<and> duplicate_patch (state_of (apply_items 17 False (records_setitem example_state 3 2)
                                   [(''y'', 8)])) 17 ''f'' 3
   \<and> duplicate_patch (state_of (apply_patch (records_setitem example_state 3 2)
                                   (PatchModule 17 (Some 1) ''_'') [] (Some [(''y'', 8)]) False))
                      (target (PatchModule 17 (Some 1) ''_'')) ''f'' 3
   \<and> (\<exists>S'. apply_patch (records_setitem example_state 3 2) (PatchModule 17 (Some 1) ''_'') []
               (Some [(''y'', 8), (''f'', 3), (''z'', 9)]) False = Return () S'
          \<and> getattr_static (heap S') 17 ''y'' = Some 8
          \<and> getattr_static (heap S') 17 ''f'' = Some 18
          \<and> getattr_static (heap S') 17 ''z'' = None
          \<and> patchy_records S' = [5 \<mapsto> 2])"
proof -
  have run: "apply_items 17 False (records_setitem example_state 3 2) [(''y'', 8)]
     = Return () (example_state\<lparr>heap := example_heap(17 \<mapsto>
          PModule ''C'' [(''f'', 18), (''y'', 8)]), patchy_records := [5 \<mapsto> 2]\<rparr>)"
    by (simp add: eval_defs)
  have d0: "duplicate_patch (records_setitem example_state 3 2) 17 ''f'' 3"
    by (simp add: eval_defs)
  have d1: "duplicate_patch (example_state\<lparr>heap := example_heap(17 \<mapsto>
          PModule ''C'' [(''f'', 18), (''y'', 8)]), patchy_records := [5 \<mapsto> 2]\<rparr>) 17 ''f'' 3"
    by (simp add: eval_defs)
  show ?thesis
    using apply_returns_at_duplicate
            [of "records_setitem example_state 3 2" 17 "''f''" 3 False "[(''z'', 9)]"
                "[(''y'', 8)]" "PatchModule 17 (Some 1) ''_''"]
          run d0 d1
    by (simp add: apply_patch_kattrs_only getattr_static_def example_heap_def)
qed

text \<open>
  Claim C1, evaluated on the code. The target module holds the list \<open>[1, 2]\<close>
  (object 6) under \<^verbatim>\<open>n\<close> and the dict \<open>{a: 1}\<close> (object 12) under \<^verbatim>\<open>d\<close>; the
  source holds \<open>[3, 4]\<close> (object 7) and \<open>{b: 2}\<close> (object 13). After
  \<^verbatim>\<open>merge('n', 'd')\<close> the old containers have been extended in place, but the
  closing \<^verbatim>\<open>setattr\<close> has made the target's attributes refer to the source's
  containers, which still hold \<open>[3, 4]\<close> and \<open>{b: 2}\<close>.
\<close>

theorem merge_replaces_container:
  "getattr_static (heap example_state) 0 ''n'' = Some 6
   \<and> heap example_state 6 = Some (PList [8, 9])
   \<and> getattr_static (heap example_state) 1 ''n'' = Some 7
   \<and> heap example_state 7 = Some (PList [10, 11])
   \<and> getattr_static (heap example_state) 0 ''d'' = Some 12
   \<and> heap example_state 12 = Some (PDict [(''a'', 8)])
   \<and> getattr_static (heap example_state) 1 ''d'' = Some 13
   \<and> heap example_state 13 = Some (PDict [(''b'', 9)])
   \<and> (\<exists>S'. merge example_state (PatchModule 0 (Some 1) ''_'') [15, 16] [] = Return () S'
          \<and> getattr_static (heap S') 0 ''n'' = Some 7
          \<and> heap S' 7 = Some (PList [10, 11])
          \<and> heap S' 6 = Some (PList [8, 9, 10, 11])
          \<and> getattr_static (heap S') 0 ''d'' = Some 13
          \<and> heap S' 13 = Some (PDict [(''b'', 9)])
          \<and> heap S' 12 = Some (PDict [(''a'', 8), (''b'', 9)]))"
  by (simp add: eval_defs)

section \<open>Batches of add\<close>





lemma fold_update_keep:
  "n \<notin> fst ` set items \<Longrightarrow>
   map_of (fold (\<lambda>(n, v). AList.update n v) items d) n = map_of d n"
  by (induction items arbitrary: d) (auto simp: update_conv')

lemma fold_update_written:
  "distinct (map fst items) \<Longrightarrow> (n, v) \<in> set items \<Longrightarrow>
   map_of (fold (\<lambda>(n, v). AList.update n v) items d) n = Some v"
proof (induction items arbitrary: d)
  case Nil
  then show ?case by simp
next
  case (Cons item items)
  obtain a w where item: "item = (a, w)" by (cases item)
  show ?case
  proof (cases "(n, v) = (a, w)")
    case True
    then have "n \<notin> fst ` set items" using Cons.prems(1) item by auto
    then show ?thesis using True item by (simp add: fold_update_keep update_conv')
  next
    case False
    then have "(n, v) \<in> set items" using Cons.prems(2) item by auto
    then show ?thesis using Cons.IH Cons.prems(1) item by simp
  qed
qed


lemma heap_preserve_old [simp]: "heap (preserve_old S v old) = heap S"
  by (simp add: preserve_old_def split: option.split)






section \<open>Properties of add\_desc\<close>

lemma with_records_simps [simp]:
  "with_records R (Return x S) = Return x (S\<lparr>patchy_records := R\<rparr>)"
  "with_records R (Raised e S) = Raised e (S\<lparr>patchy_records := R\<rparr>)"
  by (simp_all add: with_records_def)

lemma py_setattr_with_records:
  "py_setattr (S\<lparr>patchy_records := R\<rparr>) a n v = with_records R (py_setattr S a n v)"
  by (simp add: py_setattr_def split: option.split pyobj.split)

lemma source_dict_item_state:
  "source_dict_item S src attr = Return x T \<Longrightarrow> T = S"
  "source_dict_item S src attr = Raised e T \<Longrightarrow> T = S"
  by (simp_all add: source_dict_item_def split: option.splits pyobj.splits)


lemma source_dict_item_with_records:
  "source_dict_item (S\<lparr>patchy_records := R\<rparr>) src attr
     = with_records R (source_dict_item S src attr)"
  by (simp add: source_dict_item_def split: option.split pyobj.split)

lemma add_desc_kattrs_with_records:
  "add_desc_kattrs tgt (S\<lparr>patchy_records := R\<rparr>) ks = with_records R (add_desc_kattrs tgt S ks)"
proof (induction ks arbitrary: S)
  case Nil
  then show ?case by simp
next
  case (Cons item ks)
  obtain n v where item: "item = (n, v)" by (cases item)
  show ?case
    by (cases "py_setattr S tgt n v")
       (simp_all add: item py_setattr_with_records Cons.IH)
qed

lemma add_desc_kattrs_records:
  "patchy_records (state_of (add_desc_kattrs tgt S ks)) = patchy_records S"
proof (induction ks arbitrary: S)
  case Nil
  then show ?case by simp
next
  case (Cons item ks)
  obtain n v where item: "item = (n, v)" by (cases item)
  show ?case
  proof (cases "py_setattr S tgt n v")
    case (Return u T)
    then have "patchy_records T = patchy_records S"
      using py_setattr_records [of S tgt n v] by simp
    then show ?thesis using Return item Cons.IH by simp
  next
    case (Raised e T)
    then show ?thesis using py_setattr_records [of S tgt n v] item by simp
  qed
qed

lemma desc_entry_state:
  "desc_entry S src attr = Return x T \<Longrightarrow> T = S"
  "desc_entry S src attr = Raised e T \<Longrightarrow> T = S"
  using source_dict_item_state [of S src attr]
  by (auto simp: desc_entry_def split: option.splits)

lemma desc_entry_with_records:
  "desc_entry (S\<lparr>patchy_records := R\<rparr>) src attr = with_records R (desc_entry S src attr)"
  by (simp add: desc_entry_def source_dict_item_with_records split: option.split)

lemma add_desc_attrs_unfold:
  "add_desc_attrs tgt src S (attr # attrs) =
     (case desc_entry S src attr of
        Raised e S' \<Rightarrow> Raised e S'
      | Return (nm, v) S' \<Rightarrow>
         (case py_setattr S' tgt nm v of
            Raised e S'' \<Rightarrow> Raised e S''
          | Return _ S'' \<Rightarrow> add_desc_attrs tgt src S'' attrs))"
  by simp

lemma add_desc_attrs_with_records:
  "add_desc_attrs tgt src (S\<lparr>patchy_records := R\<rparr>) attrs
     = with_records R (add_desc_attrs tgt src S attrs)"
proof (induction attrs arbitrary: S)
  case Nil
  then show ?case by simp
next
  case (Cons attr attrs)
  show ?case
  proof (cases "desc_entry S src attr")
    case (Raised e T)
    then show ?thesis
      by (simp only: add_desc_attrs_unfold desc_entry_with_records) simp
  next
    case (Return x T)
    obtain nm v where x: "x = (nm, v)" by (cases x)
    show ?thesis
      by (cases "py_setattr T tgt nm v")
         (simp_all only: add_desc_attrs_unfold desc_entry_with_records Return x
            with_records_simps outcome.case prod.case py_setattr_with_records Cons.IH)
  qed
qed

lemma add_desc_attrs_records:
  "patchy_records (state_of (add_desc_attrs tgt src S attrs)) = patchy_records S"
proof (induction attrs arbitrary: S)
  case Nil
  then show ?case by simp
next
  case (Cons attr attrs)
  show ?case
  proof (cases "desc_entry S src attr")
    case (Raised e T)
    then show ?thesis using desc_entry_state(2) [OF Raised]
      by (simp only: add_desc_attrs_unfold) simp
  next
    case (Return x T)
    obtain nm v where x: "x = (nm, v)" by (cases x)
    have T: "T = S" using desc_entry_state(1) [OF Return] .
    show ?thesis
    proof (cases "py_setattr S tgt nm v")
      case Ret: (Return u U)
      then have "patchy_records U = patchy_records S"
        using py_setattr_records [of S tgt nm v] by simp
      then show ?thesis using Return x T Ret Cons.IH [of U]
        by (simp only: add_desc_attrs_unfold) simp
    next
      case (Raised e U)
      then show ?thesis using Return x T py_setattr_records [of S tgt nm v]
        by (simp only: add_desc_attrs_unfold) simp
    qed
  qed
qed


lemma add_desc_with_records:
  "add_desc (S\<lparr>patchy_records := R\<rparr>) p attrs kattrs = with_records R (add_desc S p attrs kattrs)"
  by (cases "add_desc_kattrs (target p) S kattrs")
     (simp_all add: add_desc_def add_desc_kattrs_with_records add_desc_attrs_with_records)

lemma add_desc_records:
  "patchy_records (state_of (add_desc S p attrs kattrs)) = patchy_records S"
proof (cases "add_desc_kattrs (target p) S kattrs")
  case (Return u T)
  then have "patchy_records T = patchy_records S"
    using add_desc_kattrs_records [of "target p" S kattrs] by simp
  then show ?thesis using Return add_desc_attrs_records [of "target p" "source p" T attrs]
    by (simp add: add_desc_def)
next
  case (Raised e T)
  then show ?thesis using add_desc_kattrs_records [of "target p" S kattrs]
    by (simp add: add_desc_def)
qed


lemma add_desc_kattrs_writes:
  assumes "own_dict (heap S) (Some tgt) = Some d"
  shows "\<exists>S'. add_desc_kattrs tgt S ks = Return () S'
           \<and> own_dict (heap S') (Some tgt) = Some (fold (\<lambda>(n, v). AList.update n v) ks d)
           \<and> (\<forall>x. x \<noteq> tgt \<longrightarrow> heap S' x = heap S x)
           \<and> (\<forall>x. name_attr (heap S') x = name_attr (heap S) x)"
  using assms
proof (induction ks arbitrary: S d)
  case Nil
  then show ?case by simp
next
  case (Cons item ks)
  obtain n v where item: "item = (n, v)" by (cases item)
  show ?case
  proof (rule py_setattr_own [OF Cons.prems, of n v])
    fix ob
    assume ob: "heap S tgt = Some ob"
      and s: "py_setattr S tgt n v
              = Return () (S\<lparr>heap := (heap S)(tgt \<mapsto> with_dict ob (AList.update n v d))\<rparr>)"
    define S3 where "S3 = S\<lparr>heap := (heap S)(tgt \<mapsto> with_dict ob (AList.update n v d))\<rparr>"
    have h3: "heap S3 = (heap S)(tgt \<mapsto> with_dict ob (AList.update n v d))"
      by (simp add: S3_def)
    have d3: "own_dict (heap S3) (Some tgt) = Some (AList.update n v d)"
      using own_dict_with_dict [OF ob Cons.prems, of "AList.update n v d" tgt] h3 by simp
    have n3: "\<forall>x. name_attr (heap S3) x = name_attr (heap S) x"
      using name_attr_upd [OF ob Cons.prems] h3 by simp
    obtain S' where r: "add_desc_kattrs tgt S3 ks = Return () S'"
      and dS': "own_dict (heap S') (Some tgt)
                  = Some (fold (\<lambda>(n, v). AList.update n v) ks (AList.update n v d))"
      and el: "\<forall>x. x \<noteq> tgt \<longrightarrow> heap S' x = heap S3 x"
      and nm: "\<forall>x. name_attr (heap S') x = name_attr (heap S3) x"
      using Cons.IH [OF d3] by blast
    have "add_desc_kattrs tgt S (item # ks) = Return () S'"
      using s r item by (simp add: S3_def)
    moreover have "own_dict (heap S') (Some tgt)
                     = Some (fold (\<lambda>(n, v). AList.update n v) (item # ks) d)"
      using dS' item by simp
    moreover have "\<forall>x. x \<noteq> tgt \<longrightarrow> heap S' x = heap S x" using el h3 by simp
    moreover have "\<forall>x. name_attr (heap S') x = name_attr (heap S) x" using nm n3 by simp
    ultimately show ?thesis by blast
  qed
qed

lemma filed_as_desc_entry:
  assumes "filed_as (heap S) src a (nm, v)"
  shows "desc_entry S src a = Return (nm, v) S"
  using assms by (auto simp: desc_entry_def source_dict_item_def)

lemma filed_as_frame:
  assumes f: "filed_as h src a (nm, v)"
    and d: "own_dict h (Some tgt) = Some d" and ne: "src \<noteq> Some tgt"
    and n': "\<forall>x. name_attr h' x = name_attr h x"
    and el: "\<forall>x. x \<noteq> tgt \<longrightarrow> h' x = h x"
  shows "filed_as h' src a (nm, v)"
proof -
  have src: "own_dict h' src = own_dict h src"
  proof (cases src)
    case None
    then show ?thesis by (simp add: own_dict_def)
  next
    case (Some x)
    then have "h' x = h x" using ne el by simp
    then show ?thesis using Some by (simp add: own_dict_def)
  qed
  have str: "h a = Some (PStr nm) \<Longrightarrow> h' a = Some (PStr nm)"
  proof -
    assume s: "h a = Some (PStr nm)"
    then have "a \<noteq> tgt" using d by (auto simp: own_dict_def)
    then show ?thesis using el s by simp
  qed
  show ?thesis using f n' src str by auto
qed

lemma add_desc_attrs_writes:
  assumes "own_dict (heap S) (Some tgt) = Some d" and "src \<noteq> Some tgt"
    and "list_all2 (filed_as (heap S) src) attrs items"
  shows "\<exists>S'. add_desc_attrs tgt src S attrs = Return () S'
           \<and> own_dict (heap S') (Some tgt) = Some (fold (\<lambda>(n, v). AList.update n v) items d)
           \<and> (\<forall>x. x \<noteq> tgt \<longrightarrow> heap S' x = heap S x)"
  using assms
proof (induction attrs arbitrary: S d items)
  case Nil
  then show ?case by simp
next
  case (Cons a attrs)
  obtain item items' where items: "items = item # items'"
    and fa: "filed_as (heap S) src a item"
    and rest: "list_all2 (filed_as (heap S) src) attrs items'"
    using Cons.prems(3) by (auto simp: list_all2_Cons1)
  obtain nm v where item: "item = (nm, v)" by (cases item)
  have de: "desc_entry S src a = Return (nm, v) S"
    using fa item filed_as_desc_entry by simp
  show ?case
  proof (rule py_setattr_own [OF Cons.prems(1), of nm v])
    fix ob
    assume ob: "heap S tgt = Some ob"
      and s: "py_setattr S tgt nm v
              = Return () (S\<lparr>heap := (heap S)(tgt \<mapsto> with_dict ob (AList.update nm v d))\<rparr>)"
    define S3 where "S3 = S\<lparr>heap := (heap S)(tgt \<mapsto> with_dict ob (AList.update nm v d))\<rparr>"
    have h3: "heap S3 = (heap S)(tgt \<mapsto> with_dict ob (AList.update nm v d))"
      by (simp add: S3_def)
    have d3: "own_dict (heap S3) (Some tgt) = Some (AList.update nm v d)"
      using own_dict_with_dict [OF ob Cons.prems(1), of "AList.update nm v d" tgt] h3 by simp
    have n3: "\<forall>x. name_attr (heap S3) x = name_attr (heap S) x"
      using name_attr_upd [OF ob Cons.prems(1)] h3 by simp
    have e3: "\<forall>x. x \<noteq> tgt \<longrightarrow> heap S3 x = heap S x" using h3 by simp
    have rest3: "list_all2 (filed_as (heap S3) src) attrs items'"
    proof (rule list_all2_mono [OF rest])
      fix x y
      assume xy: "filed_as (heap S) src x y"
      obtain n' v' where y: "y = (n', v')" by (cases y)
      show "filed_as (heap S3) src x y"
        using filed_as_frame [OF _ Cons.prems(1) Cons.prems(2) n3 e3, of x n' v'] xy y by simp
    qed
    obtain S' where r: "add_desc_attrs tgt src S3 attrs = Return () S'"
      and dS': "own_dict (heap S') (Some tgt)
                  = Some (fold (\<lambda>(n, v). AList.update n v) items' (AList.update nm v d))"
      and el: "\<forall>x. x \<noteq> tgt \<longrightarrow> heap S' x = heap S3 x"
      using Cons.IH [OF d3 Cons.prems(2) rest3] by blast
    have "add_desc_attrs tgt src S (a # attrs) = Return () S'"
      using de s r by (simp add: S3_def)
    moreover have "own_dict (heap S') (Some tgt)
                     = Some (fold (\<lambda>(n, v). AList.update n v) items d)"
      using dS' items item by simp
    moreover have "\<forall>x. x \<noteq> tgt \<longrightarrow> heap S' x = heap S x" using el h3 by simp
    ultimately show ?thesis by blast
  qed
qed

lemma name_attr_kinds:
  "h a = Some (PFunction nm c) \<Longrightarrow> name_attr h a = Some nm"
  "h a = Some (PClass nm md m d) \<Longrightarrow> name_attr h a = Some nm"
  "h a = Some (PModule nm d) \<Longrightarrow> name_attr h a = Some nm"
  "h a = Some (PClassMethod g) \<Longrightarrow> h g = Some (PFunction nm c) \<Longrightarrow> name_attr h a = Some nm"
  "h a = Some (PStaticMethod g) \<Longrightarrow> h g = Some (PFunction nm c) \<Longrightarrow> name_attr h a = Some nm"
  "h a = Some (PStr s) \<Longrightarrow> name_attr h a = None"
  by (simp_all add: name_attr_def func_name_def obj_name_def direct_name_def)

text \<open>
  Claim C9. \<^verbatim>\<open>add_desc\<close> leaves the registry as it was, whatever it is given and
  whether it returns or raises, and does not read it: run with any other registry
  contents it does the same and leaves those contents. On a target with a
  \<^verbatim>\<open>__dict__\<close> that is not also the source, a call with any keyword entries and any
  positional entries (each an object with a \<^verbatim>\<open>__name__\<close>, or a string that is a key
  of the source's own \<^verbatim>\<open>__dict__\<close>) returns normally and leaves the target's
  \<^verbatim>\<open>__dict__\<close> as the old one with the keyword entries and then the positional
  entries assigned in order; so with distinct names every given attribute is found on the
  target under its name. Functions and classes are filed under their own name,
  \<^verbatim>\<open>classmethod\<close> and \<^verbatim>\<open>staticmethod\<close> objects under the name of the function
  they wrap, and a string has no \<^verbatim>\<open>__name__\<close>.
\<close>

theorem add_desc_registry_frame:
  "patchy_records (state_of (add_desc S p attrs kattrs)) = patchy_records S
   \<and> add_desc (S\<lparr>patchy_records := R\<rparr>) p attrs kattrs
       = with_records R (add_desc S p attrs kattrs)
   \<and> (own_dict (heap T) (Some (target q)) = Some d \<and> source q \<noteq> Some (target q)
        \<and> list_all2 (filed_as (heap T) (source q)) as items \<longrightarrow>
        (\<exists>T'. add_desc T q as ks = Return () T'
            \<and> own_dict (heap T') (Some (target q))
                = Some (fold (\<lambda>(n, v). AList.update n v) items
                          (fold (\<lambda>(n, v). AList.update n v) ks d))
            \<and> (distinct (map fst (ks @ items)) \<longrightarrow>
                 (\<forall>(n, v) \<in> set (ks @ items).
                    getattr_static (heap T') (target q) n = Some v))))
   \<and> (heap T a = Some (PFunction nm c) \<longrightarrow> name_attr (heap T) a = Some nm)
   \<and> (heap T a = Some (PClass nm md m cd) \<longrightarrow> name_attr (heap T) a = Some nm)
   \<and> ((heap T a = Some (PClassMethod g) \<or> heap T a = Some (PStaticMethod g))
        \<and> heap T g = Some (PFunction nm c) \<longrightarrow> name_attr (heap T) a = Some nm)
   \<and> (heap T a = Some (PStr s) \<longrightarrow> name_attr (heap T) a = None)"
proof (intro conjI impI)
  show "patchy_records (state_of (add_desc S p attrs kattrs)) = patchy_records S"
    by (rule add_desc_records)
  show "add_desc (S\<lparr>patchy_records := R\<rparr>) p attrs kattrs
          = with_records R (add_desc S p attrs kattrs)"
    by (rule add_desc_with_records)
next
  assume a: "own_dict (heap T) (Some (target q)) = Some d \<and> source q \<noteq> Some (target q)
        \<and> list_all2 (filed_as (heap T) (source q)) as items"
  let ?f = "\<lambda>(n, v). AList.update n v"
  obtain T1 where k: "add_desc_kattrs (target q) T ks = Return () T1"
    and d1: "own_dict (heap T1) (Some (target q)) = Some (fold ?f ks d)"
    and e1: "\<forall>x. x \<noteq> target q \<longrightarrow> heap T1 x = heap T x"
    and n1: "\<forall>x. name_attr (heap T1) x = name_attr (heap T) x"
    using add_desc_kattrs_writes [of T "target q" d ks] a by blast
  have ents: "list_all2 (filed_as (heap T1) (source q)) as items"
  proof (rule list_all2_mono [of "filed_as (heap T) (source q)"])
    show "list_all2 (filed_as (heap T) (source q)) as items" using a by simp
    fix x y
    assume xy: "filed_as (heap T) (source q) x y"
    obtain n' v' where y: "y = (n', v')" by (cases y)
    show "filed_as (heap T1) (source q) x y"
      using filed_as_frame [where h="heap T" and src="source q" and a=x and nm=n' and v=v'
              and tgt="target q" and d=d and h'="heap T1"] xy y a n1 e1 by simp
  qed
  obtain T' where r: "add_desc_attrs (target q) (source q) T1 as = Return () T'"
    and d': "own_dict (heap T') (Some (target q)) = Some (fold ?f items (fold ?f ks d))"
    using add_desc_attrs_writes [OF d1 _ ents] a by blast
  have run: "add_desc T q as ks = Return () T'"
    using k r by (simp add: add_desc_def)
  have each: "distinct (map fst (ks @ items)) \<longrightarrow>
                 (\<forall>(n, v) \<in> set (ks @ items). getattr_static (heap T') (target q) n = Some v)"
  proof (intro impI ballI)
    fix x
    assume dist: "distinct (map fst (ks @ items))" and x: "x \<in> set (ks @ items)"
    obtain n v where nv: "x = (n, v)" by (cases x)
    have "map_of (fold ?f (ks @ items) d) n = Some v"
      using fold_update_written [OF dist, of n v d] x nv by simp
    then have "map_of (fold ?f items (fold ?f ks d)) n = Some v" by simp
    then have "getattr_static (heap T') (target q) n = Some v"
      by (rule getattr_static_own [OF d'])
    then show "case x of (n, v) \<Rightarrow> getattr_static (heap T') (target q) n = Some v"
      using nv by simp
  qed
  show "\<exists>T'. add_desc T q as ks = Return () T'
            \<and> own_dict (heap T') (Some (target q))
                = Some (fold (\<lambda>(n, v). AList.update n v) items
                          (fold (\<lambda>(n, v). AList.update n v) ks d))
            \<and> (distinct (map fst (ks @ items)) \<longrightarrow>
                 (\<forall>(n, v) \<in> set (ks @ items).
                    getattr_static (heap T') (target q) n = Some v))"
    using run d' each by blast
next
  assume "heap T a = Some (PFunction nm c)"
  then show "name_attr (heap T) a = Some nm" by (rule name_attr_kinds)
next
  assume "heap T a = Some (PClass nm md m cd)"
  then show "name_attr (heap T) a = Some nm" by (rule name_attr_kinds)
next
  assume "(heap T a = Some (PClassMethod g) \<or> heap T a = Some (PStaticMethod g))
        \<and> heap T g = Some (PFunction nm c)"
  then show "name_attr (heap T) a = Some nm" by (auto simp: name_attr_kinds)
next
  assume "heap T a = Some (PStr s)"
  then show "name_attr (heap T) a = None" by (rule name_attr_kinds)
qed

theorem add_desc_registry_frame_witness:
  "own_dict (heap example_state) (Some (target (PatchClass 20 (Some 21))))
     = Some [(''greet'', 22)]
   \<and> source (PatchClass 20 (Some 21)) \<noteq> Some (target (PatchClass 20 (Some 21)))
   \<and> list_all2 (filed_as (heap example_state) (source (PatchClass 20 (Some 21))))
        [3, 27] [(''f'', 3), (''greet'', 23)]
   \<and> list_all2 (filed_as (heap example_state) (source (PatchClass 20 (Some 21))))
        [28, 37] [(''greet'', 28), (''f'', 37)]
   \<and> distinct (map fst ([(''x'', 8 :: addr), (''y'', 9)] @ [(''f'', 3), (''greet'', 23)]))
   \<and> patchy_records (state_of (add_desc (records_setitem example_state 3 2)
        (PatchClass 20 (Some 21)) [3, 27] [(''x'', 8), (''y'', 9)])) = [5 \<mapsto> 2]
   \<and> (\<exists>T'. add_desc example_state (PatchClass 20 (Some 21)) [3, 27] [(''x'', 8), (''y'', 9)]
               = Return () T'
          \<and> own_dict (heap T') (Some 20)
              = Some [(''greet'', 23), (''x'', 8), (''y'', 9), (''f'', 3)]
          \<and> getattr_static (heap T') 20 ''x'' = Some 8
          \<and> getattr_static (heap T') 20 ''y'' = Some 9
          \<and> getattr_static (heap T') 20 ''f'' = Some 3
          \<and> getattr_static (heap T') 20 ''greet'' = Some 23)
   \<and> (\<exists>T'. add_desc example_state (PatchClass 20 (Some 21)) [28, 37] [] = Return () T'
          \<and> own_dict (heap T') (Some 20) = Some [(''greet'', 28), (''f'', 37)])
   \<and> name_attr (heap example_state) 3 = Some ''f''
   \<and> name_attr (heap example_state) 20 = Some ''Foo''
   \<and> name_attr (heap example_state) 28 = Some ''greet''
   \<and> name_attr (heap example_state) 37 = Some ''f''
   \<and> name_attr (heap example_state) 27 = None"
proof -
  have pre: "own_dict (heap example_state) (Some (target (PatchClass 20 (Some 21))))
     = Some [(''greet'', 22)]"
    "source (PatchClass 20 (Some 21)) \<noteq> Some (target (PatchClass 20 (Some 21)))"
    "list_all2 (filed_as (heap example_state) (source (PatchClass 20 (Some 21))))
        [3, 27] [(''f'', 3), (''greet'', 23)]"
    "list_all2 (filed_as (heap example_state) (source (PatchClass 20 (Some 21))))
        [28, 37] [(''greet'', 28), (''f'', 37)]"
    "distinct (map fst ([(''x'', 8 :: addr), (''y'', 9)] @ [(''f'', 3), (''greet'', 23)]))"
    "patchy_records (records_setitem example_state 3 2) = [5 \<mapsto> 2]"
    by (simp_all add: eval_defs own_dict_def)
  have hp: "heap example_state 3 = Some (PFunction ''f'' 5)"
    "heap example_state 20 = Some (PClass ''Foo'' ''app'' [] [(''greet'', 22)])"
    "heap example_state 28 = Some (PClassMethod 22)"
    "heap example_state 37 = Some (PStaticMethod 18)"
    "heap example_state 22 = Some (PFunction ''greet'' 24)"
    "heap example_state 18 = Some (PFunction ''f'' 19)"
    "heap example_state 27 = Some (PStr ''greet'')"
    by (simp_all add: example_state_def example_heap_def)
  show ?thesis
    using add_desc_registry_frame
            [of "records_setitem example_state 3 2" "PatchClass 20 (Some 21)" "[3, 27]"
                "[(''x'', 8), (''y'', 9)]" Map.empty example_state "PatchClass 20 (Some 21)"
                "[(''greet'', 22)]" "[3, 27]" "[(''f'', 3), (''greet'', 23)]"
                "[(''x'', 8), (''y'', 9)]" 3 "''f''" 5 "''app''" "[]" "[]" 22 "''greet''"]
          add_desc_registry_frame
            [of example_state "PatchClass 20 (Some 21)" "[]" "[]" Map.empty example_state
                "PatchClass 20 (Some 21)" "[(''greet'', 22)]" "[28, 37]"
                "[(''greet'', 28), (''f'', 37)]" "[]" 28 "''greet''" 24 "''app''" "[]" "[]" 22
                "''greet''"]
          add_desc_registry_frame
            [of example_state "PatchClass 20 (Some 21)" "[]" "[]" Map.empty example_state
                "PatchClass 20 (Some 21)" "[(''greet'', 22)]" "[]" "[]" "[]" 20 "''Foo''" 5
                "''app''" "[]" "[(''greet'', 22)]" 22 "''greet''"]
          add_desc_registry_frame
            [of example_state "PatchClass 20 (Some 21)" "[]" "[]" Map.empty example_state
                "PatchClass 20 (Some 21)" "[(''greet'', 22)]" "[]" "[]" "[]" 37 "''f''" 19
                "''app''" "[]" "[]" 18 "''greet''"]
          pre hp
    by (auto simp: getattr_static_own)
qed

section \<open>The entry point and the resolver\<close>

lemma resolve_if_str_object:
  "(\<forall>s. heap S a \<noteq> Some (PStr s)) \<Longrightarrow> resolve_if_str S (Some a) = Return (Some a) S"
  by (simp add: resolve_if_str_def split: option.split pyobj.split)

lemma truthy_kinds:
  "\<not> truthy_opt h None"
  "is_module h b \<or> is_class h b \<Longrightarrow> truthy_opt h (Some b)"
  "h b = Some (PList []) \<or> h b = Some (PDict []) \<or> h b = Some (PStr []) \<or> h b = Some (PInt 0)
     \<Longrightarrow> \<not> truthy_opt h (Some b)"
proof -
  show "\<not> truthy_opt h None" by (simp add: truthy_opt_def)
  show "is_module h b \<or> is_class h b \<Longrightarrow> truthy_opt h (Some b)"
  proof (cases "h b")
    case None
    then show ?thesis by (simp add: truthy_opt_def truthy_def)
  next
    case (Some ob)
    assume "is_module h b \<or> is_class h b"
    then show ?thesis using Some
      by (cases ob) (simp_all add: truthy_opt_def truthy_def is_module_def is_class_def)
  qed
  show "h b = Some (PList []) \<or> h b = Some (PDict []) \<or> h b = Some (PStr []) \<or> h b = Some (PInt 0)
     \<Longrightarrow> \<not> truthy_opt h (Some b)"
    by (auto simp: truthy_opt_def truthy_def)
qed

text \<open>
  Claim C8 as stated fails in two places. A class target with a supplied source that is
  false (here an empty list) gets no session. And a module target (here the string
  \<^verbatim>\<open>os.path\<close>) with a source string that does not resolve gets neither a session nor
  \<^verbatim>\<open>None\<close>: the resolver's error propagates.
\<close>

theorem patchy_false_source_counterexample:
  "heap example_state 20 = Some (PClass ''Foo'' ''app'' [] [(''greet'', 22)])
   \<and> heap example_state 36 = Some (PList [])
   \<and> patchy example_state (Some 20) (Some 36) = Return None example_state
   \<and> heap example_state 34 = Some (PStr ''os.path'')
   \<and> resolve example_state ''os.path'' NoPackage = Return 31 example_state
   \<and> heap example_state 31 = Some (PModule ''posixpath'' [(''join'', 32)])
   \<and> heap example_state 35 = Some (PStr ''nosuch.thing'')
   \<and> patchy example_state (Some 34) (Some 35)
        = Raised (ImportError ''thing is not a valid class or module name'') example_state"
  by (simp add: patchy_def resolve_if_str_def dispatch_def resolve_def resolve_in_def
        package_name_of_def truthy_opt_def truthy_def import_module_def find_and_load_def
        rsplit1_def not_found_def is_AttributeError_def is_ImportError_def is_module_def
        is_class_def example_state_def example_heap_def)

text \<open>
  Claim C8, amended. \<^verbatim>\<open>patchy\<close> resolves a string target, then a string source; an
  error of either resolution propagates. Otherwise it returns a module-patch session for a
  module target, a class-patch session for a class target whose source is true (the test
  \<^verbatim>\<open>and source\<close>: not \<^verbatim>\<open>None\<close>, and not a false value such as an empty
  container, an empty string or zero; modules and classes are true), and \<^verbatim>\<open>None\<close> in
  every other case: a class target with no source or a false one, a target that is
  neither module nor class, no target. An argument that is no string is taken as it is.
\<close>

theorem patchy_dispatch:
  "(resolve_if_str S tgt = Raised e S1 \<longrightarrow> patchy S tgt src = Raised e S1)
   \<and> (resolve_if_str S tgt = Return t S1 \<and> resolve_if_str S1 src = Raised e S2 \<longrightarrow>
        patchy S tgt src = Raised e S2)
   \<and> (resolve_if_str S tgt = Return t S1 \<and> resolve_if_str S1 src = Return s S2 \<longrightarrow>
        (t = Some a \<and> is_module (heap S2) a \<longrightarrow>
           patchy S tgt src = Return (Some (PatchModule a s ''_'')) S2)
      \<and> (t = Some a \<and> is_class (heap S2) a \<and> truthy_opt (heap S2) s \<longrightarrow>
           patchy S tgt src = Return (Some (PatchClass a s)) S2)
      \<and> (t = Some a \<and> is_class (heap S2) a \<and> \<not> truthy_opt (heap S2) s \<longrightarrow>
           patchy S tgt src = Return None S2)
      \<and> (t = None \<or> (t = Some a \<and> \<not> is_module (heap S2) a \<and> \<not> is_class (heap S2) a) \<longrightarrow>
           patchy S tgt src = Return None S2))
   \<and> ((\<forall>x. heap S b \<noteq> Some (PStr x)) \<longrightarrow> resolve_if_str S (Some b) = Return (Some b) S)
   \<and> (heap S b = Some (PStr x) \<longrightarrow>
        resolve_if_str S (Some b)
          = (case resolve S x NoPackage of
               Return r S' \<Rightarrow> Return (Some r) S'
             | Raised e' S' \<Rightarrow> Raised e' S'))
   \<and> resolve_if_str S None = Return None S
   \<and> \<not> truthy_opt h None
   \<and> (is_module h c \<or> is_class h c \<longrightarrow> truthy_opt h (Some c))
   \<and> (h c = Some (PList []) \<or> h c = Some (PDict []) \<or> h c = Some (PStr [])
        \<or> h c = Some (PInt 0) \<longrightarrow> \<not> truthy_opt h (Some c))"
proof (intro conjI impI)
  assume "resolve_if_str S tgt = Raised e S1"
  then show "patchy S tgt src = Raised e S1" by (simp add: patchy_def)
next
  assume "resolve_if_str S tgt = Return t S1 \<and> resolve_if_str S1 src = Raised e S2"
  then show "patchy S tgt src = Raised e S2" by (simp add: patchy_def)
next
  assume r: "resolve_if_str S tgt = Return t S1 \<and> resolve_if_str S1 src = Return s S2"
  then have p: "patchy S tgt src = Return (dispatch (heap S2) t s) S2"
    by (simp add: patchy_def)
  have excl: "is_class (heap S2) a \<Longrightarrow> \<not> is_module (heap S2) a"
  proof (cases "heap S2 a")
    case None
    then show ?thesis by (simp add: is_module_def)
  next
    case (Some ob)
    assume "is_class (heap S2) a"
    then show ?thesis using Some by (cases ob) (simp_all add: is_class_def is_module_def)
  qed
  {
    assume "t = Some a \<and> is_module (heap S2) a"
    then show "patchy S tgt src = Return (Some (PatchModule a s ''_'')) S2"
      using p by (simp add: dispatch_def)
  next
    assume "t = Some a \<and> is_class (heap S2) a \<and> truthy_opt (heap S2) s"
    then show "patchy S tgt src = Return (Some (PatchClass a s)) S2"
      using p excl by (simp add: dispatch_def)
  next
    assume "t = Some a \<and> is_class (heap S2) a \<and> \<not> truthy_opt (heap S2) s"
    then show "patchy S tgt src = Return None S2"
      using p excl by (simp add: dispatch_def)
  next
    assume "t = None \<or> (t = Some a \<and> \<not> is_module (heap S2) a \<and> \<not> is_class (heap S2) a)"
    then show "patchy S tgt src = Return None S2"
      using p by (auto simp: dispatch_def)
  }
next
  assume "\<forall>x. heap S b \<noteq> Some (PStr x)"
  then show "resolve_if_str S (Some b) = Return (Some b) S" by (rule resolve_if_str_object)
next
  assume "heap S b = Some (PStr x)"
  then show "resolve_if_str S (Some b)
          = (case resolve S x NoPackage of
               Return r S' \<Rightarrow> Return (Some r) S'
             | Raised e' S' \<Rightarrow> Raised e' S')"
    by (simp add: resolve_if_str_def)
next
  show "resolve_if_str S None = Return None S" by (simp add: resolve_if_str_def)
  show "\<not> truthy_opt h None" by (rule truthy_kinds)
next
  assume "is_module h c \<or> is_class h c"
  then show "truthy_opt h (Some c)" by (rule truthy_kinds)
next
  assume "h c = Some (PList []) \<or> h c = Some (PDict []) \<or> h c = Some (PStr [])
        \<or> h c = Some (PInt 0)"
  then show "\<not> truthy_opt h (Some c)" by (rule truthy_kinds)
qed

theorem patchy_dispatch_witness:
  "patchy example_state (Some 34) None = Return (Some (PatchModule 31 None ''_'')) example_state
   \<and> patchy example_state (Some 20) (Some 21)
        = Return (Some (PatchClass 20 (Some 21))) example_state
   \<and> patchy example_state (Some 20) None = Return None example_state
   \<and> patchy example_state (Some 20) (Some 36) = Return None example_state
   \<and> patchy example_state (Some 8) (Some 1) = Return None example_state
   \<and> patchy example_state None (Some 1) = Return None example_state
   \<and> patchy example_state (Some 35) (Some 1)
        = Raised (ImportError ''thing is not a valid class or module name'') example_state
   \<and> patchy example_state (Some 0) (Some 35)
        = Raised (ImportError ''thing is not a valid class or module name'') example_state
   \<and> truthy_opt (heap example_state) (Some 21)
   \<and> \<not> truthy_opt (heap example_state) (Some 36)"
proof -
  have hp: "heap example_state 34 = Some (PStr ''os.path'')"
    "heap example_state 35 = Some (PStr ''nosuch.thing'')"
    "heap example_state 36 = Some (PList [])"
    "\<forall>x. heap example_state 20 \<noteq> Some (PStr x)" "\<forall>x. heap example_state 21 \<noteq> Some (PStr x)"
    "\<forall>x. heap example_state 36 \<noteq> Some (PStr x)" "\<forall>x. heap example_state 8 \<noteq> Some (PStr x)"
    "\<forall>x. heap example_state 1 \<noteq> Some (PStr x)" "\<forall>x. heap example_state 0 \<noteq> Some (PStr x)"
    by (simp_all add: example_state_def example_heap_def)
  have rs: "resolve example_state ''os.path'' NoPackage = Return 31 example_state"
    "resolve example_state ''nosuch.thing'' NoPackage
       = Raised (ImportError ''thing is not a valid class or module name'') example_state"
    by (simp_all add: resolve_def resolve_in_def package_name_of_def truthy_opt_def
          import_module_def find_and_load_def rsplit1_def not_found_def
          is_AttributeError_def is_ImportError_def example_state_def)
  have r: "resolve_if_str example_state (Some 34) = Return (Some 31) example_state"
    "resolve_if_str example_state (Some 35)
       = Raised (ImportError ''thing is not a valid class or module name'') example_state"
    "resolve_if_str example_state (Some 20) = Return (Some 20) example_state"
    "resolve_if_str example_state (Some 21) = Return (Some 21) example_state"
    "resolve_if_str example_state (Some 36) = Return (Some 36) example_state"
    "resolve_if_str example_state (Some 8) = Return (Some 8) example_state"
    "resolve_if_str example_state (Some 1) = Return (Some 1) example_state"
    "resolve_if_str example_state (Some 0) = Return (Some 0) example_state"
    "resolve_if_str example_state None = Return None example_state"
    using patchy_dispatch [where S=example_state and b=34 and x="''os.path''"]
      patchy_dispatch [where S=example_state and b=35 and x="''nosuch.thing''"]
      patchy_dispatch [where S=example_state and b=20]
      patchy_dispatch [where S=example_state and b=21]
      patchy_dispatch [where S=example_state and b=36]
      patchy_dispatch [where S=example_state and b=8]
      patchy_dispatch [where S=example_state and b=1]
      patchy_dispatch [where S=example_state and b=0]
      hp rs
    by simp_all
  have k: "is_module (heap example_state) 31" "is_class (heap example_state) 20"
    "is_module (heap example_state) 0" "is_class (heap example_state) 21"
    "\<not> is_module (heap example_state) 8" "\<not> is_class (heap example_state) 8"
    by (simp_all add: is_module_def is_class_def example_state_def example_heap_def)
  have t: "truthy_opt (heap example_state) (Some 21)"
    "\<not> truthy_opt (heap example_state) (Some 36)" "\<not> truthy_opt (heap example_state) None"
    using patchy_dispatch [where h="heap example_state" and c=21]
      patchy_dispatch [where h="heap example_state" and c=36] k hp
    by simp_all
  have p1: "patchy example_state (Some 34) None
              = Return (Some (PatchModule 31 None ''_'')) example_state"
    using patchy_dispatch [where S=example_state and tgt="Some 34" and src=None
            and t="Some 31" and ?S1.0=example_state and s=None and ?S2.0=example_state and a=31]
          r k by simp
  have p2: "patchy example_state (Some 20) (Some 21)
              = Return (Some (PatchClass 20 (Some 21))) example_state"
    using patchy_dispatch [where S=example_state and tgt="Some 20" and src="Some 21"
            and t="Some 20" and ?S1.0=example_state and s="Some 21" and ?S2.0=example_state
            and a=20]
          r k t by simp
  have p3: "patchy example_state (Some 20) None = Return None example_state"
    using patchy_dispatch [where S=example_state and tgt="Some 20" and src=None
            and t="Some 20" and ?S1.0=example_state and s=None and ?S2.0=example_state and a=20]
          r k t by simp
  have p4: "patchy example_state (Some 20) (Some 36) = Return None example_state"
    using patchy_dispatch [where S=example_state and tgt="Some 20" and src="Some 36"
            and t="Some 20" and ?S1.0=example_state and s="Some 36" and ?S2.0=example_state
            and a=20]
          r k t by simp
  have p5: "patchy example_state (Some 8) (Some 1) = Return None example_state"
    using patchy_dispatch [where S=example_state and tgt="Some 8" and src="Some 1"
            and t="Some 8" and ?S1.0=example_state and s="Some 1" and ?S2.0=example_state and a=8]
          r k by simp
  have p6: "patchy example_state None (Some 1) = Return None example_state"
    using patchy_dispatch [where S=example_state and tgt=None and src="Some 1"
            and t=None and ?S1.0=example_state and s="Some 1" and ?S2.0=example_state]
          r by simp
  have p7: "patchy example_state (Some 35) (Some 1)
        = Raised (ImportError ''thing is not a valid class or module name'') example_state"
    using patchy_dispatch [where S=example_state and tgt="Some 35" and src="Some 1"
            and e="ImportError ''thing is not a valid class or module name''"
            and ?S1.0=example_state]
          r by simp
  have p8: "patchy example_state (Some 0) (Some 35)
        = Raised (ImportError ''thing is not a valid class or module name'') example_state"
    using patchy_dispatch [where S=example_state and tgt="Some 0" and src="Some 35"
            and e="ImportError ''thing is not a valid class or module name''"
            and t="Some 0" and ?S1.0=example_state and ?S2.0=example_state]
          r by simp
  show ?thesis using p1 p2 p3 p4 p5 p6 p7 p8 t by simp
qed

text \<open>
  Claim C5, evaluated on the code. The three resolutions of the claim succeed. A dotted
  path whose prefix cannot be imported raises the ImportError, but its message names only
  the last component: \<^verbatim>\<open>name\<close> was rebound by \<^verbatim>\<open>rsplit\<close> before the prefix was
  imported. A dotless name that is no module, resolved without a package, does not reach
  the ImportError at all: \<^verbatim>\<open>import_module(None)\<close> raises an AttributeError.
\<close>

theorem resolve_error_message:
  "resolve example_state ''os.path'' NoPackage = Return 31 example_state
   \<and> resolve example_state ''path'' (PackageName ''os'') = Return 31 example_state
   \<and> resolve example_state ''join'' (PackageName ''os.path'') = Return 32 example_state
   \<and> resolve example_state ''nosuch.thing'' NoPackage
        = Raised (ImportError ''thing is not a valid class or module name'') example_state
   \<and> resolve example_state ''os.nosuch'' NoPackage
        = Raised (ImportError ''nosuch is not a valid class or module name, within os'')
            example_state
   \<and> resolve example_state ''nosuch'' NoPackage
        = Raised (AttributeError ''startswith'') example_state"
  by (simp add: resolve_def resolve_in_def package_name_of_def truthy_opt_def truthy_def
        import_module_def find_and_load_def rsplit1_def not_found_def
        getattr_or_not_found_def is_AttributeError_def is_ImportError_def
        name_attr_def func_name_def obj_name_def direct_name_def is_module_def
        py_getattr_def example_state_def example_heap_def)

section \<open>Properties of super\_patchy\<close>





lemma super_patchy_bound:
  assumes r: "patchy_records S (norm_key (heap S) (f_code fr)) = Some old"
    and a: "caller_args (heap S) fr = a0 # rest"
    and n: "a0 = ''self'' \<or> a0 = ''cls''"
    and l: "map_of (f_locals fr) a0 = Some slf"
    and c: "callable (heap S) old"
  shows "super_patchy invoke S fr args kwargs dc =
           (if dc then invoke (snd (alloc S (PMethod old slf))) (fresh S) args kwargs
            else Return (fresh S) (snd (alloc S (PMethod old slf))))"
  using assms
  by (auto simp: super_patchy_def records_getitem_def MethodType_def bound_method_def alloc_def)

text \<open>
  Claim C2. When the registry holds a predecessor for the code of the calling frame, the
  caller's first parameter is named \<^verbatim>\<open>self\<close> or \<^verbatim>\<open>cls\<close> and is bound, and the
  predecessor is callable (as \<^verbatim>\<open>MethodType\<close> demands and as every predecessor that
  apply records is), \<^verbatim>\<open>super_patchy\<close> makes a new method object binding the
  predecessor to that parameter's value; with \<^verbatim>\<open>do_call\<close> true it returns what
  calling that method with the given arguments returns, with \<^verbatim>\<open>do_call\<close> false it
  returns the method. The scenario: after \<^verbatim>\<open>patchy(Foo, Bar).add('greet')\<close> the class
  \<^verbatim>\<open>Foo\<close> holds \<^verbatim>\<open>Bar\<close>'s function, the registry maps its code to the old
  \<^verbatim>\<open>Foo.greet\<close>, and calling \<^verbatim>\<open>greet\<close> on the instance of \<^verbatim>\<open>Foo\<close> returns the
  string \<^verbatim>\<open>hi!\<close>.
\<close>

theorem super_patchy_rebinds_method:
  "(patchy_records S (norm_key (heap S) (f_code fr)) = Some old
      \<and> caller_args (heap S) fr = a0 # rest \<and> (a0 = ''self'' \<or> a0 = ''cls'')
      \<and> map_of (f_locals fr) a0 = Some slf \<and> callable (heap S) old \<longrightarrow>
        heap (snd (alloc S (PMethod old slf))) (fresh S) = Some (PMethod old slf)
      \<and> super_patchy invoke S fr args kwargs True
          = invoke (snd (alloc S (PMethod old slf))) (fresh S) args kwargs
      \<and> super_patchy invoke S fr args kwargs False
          = Return (fresh S) (snd (alloc S (PMethod old slf))))
   \<and> (\<exists>S1 S2 S3 b r.
          add example_state (PatchClass 20 (Some 21)) [27] [] = Return () S1
        \<and> getattr_static (heap S1) 20 ''greet'' = Some 23
        \<and> patchy_records S1 = [25 \<mapsto> 22]
        \<and> py_getattr S1 26 ''greet'' = Return b S2
        \<and> call (Suc (Suc (Suc (Suc 0)))) S2 b [] [] = Return r S3
        \<and> heap S3 r = Some (PStr ''hi!''))"
proof (intro conjI impI)
  assume a: "patchy_records S (norm_key (heap S) (f_code fr)) = Some old
      \<and> caller_args (heap S) fr = a0 # rest \<and> (a0 = ''self'' \<or> a0 = ''cls'')
      \<and> map_of (f_locals fr) a0 = Some slf \<and> callable (heap S) old"
  show "heap (snd (alloc S (PMethod old slf))) (fresh S) = Some (PMethod old slf)"
    by (simp add: alloc_def)
  show "super_patchy invoke S fr args kwargs True
          = invoke (snd (alloc S (PMethod old slf))) (fresh S) args kwargs"
    using a super_patchy_bound [of S fr old a0 rest slf invoke args kwargs True] by simp
  show "super_patchy invoke S fr args kwargs False
          = Return (fresh S) (snd (alloc S (PMethod old slf)))"
    using a super_patchy_bound [of S fr old a0 rest slf invoke args kwargs False] by simp
next
  show "\<exists>S1 S2 S3 b r.
          add example_state (PatchClass 20 (Some 21)) [27] [] = Return () S1
        \<and> getattr_static (heap S1) 20 ''greet'' = Some 23
        \<and> patchy_records S1 = [25 \<mapsto> 22]
        \<and> py_getattr S1 26 ''greet'' = Return b S2
        \<and> call (Suc (Suc (Suc (Suc 0)))) S2 b [] [] = Return r S3
        \<and> heap S3 r = Some (PStr ''hi!'')"
    by (simp add: eval_defs super_patchy_def caller_args_def MethodType_def new_str_def)
qed

theorem super_patchy_rebinds_method_witness:
  "patchy_records (records_setitem example_state 23 22)
     (norm_key (heap (records_setitem example_state 23 22))
        (f_code \<lparr>f_code = 25, f_locals = [(''self'', 26)]\<rparr>)) = Some 22
   \<and> caller_args (heap (records_setitem example_state 23 22))
        \<lparr>f_code = 25, f_locals = [(''self'', 26)]\<rparr> = ''self'' # []
   \<and> map_of (f_locals \<lparr>f_code = 25, f_locals = [(''self'', 26)]\<rparr>) ''self'' = Some 26
   \<and> callable (heap (records_setitem example_state 23 22)) 22
   \<and> super_patchy (call (Suc (Suc 0))) (records_setitem example_state 23 22)
        \<lparr>f_code = 25, f_locals = [(''self'', 26)]\<rparr> [] [] False
       = Return 40 (snd (alloc (records_setitem example_state 23 22) (PMethod 22 26)))
   \<and> heap (snd (alloc (records_setitem example_state 23 22) (PMethod 22 26))) 40
       = Some (PMethod 22 26)
   \<and> (\<exists>r S'. super_patchy (call (Suc (Suc 0))) (records_setitem example_state 23 22)
                 \<lparr>f_code = 25, f_locals = [(''self'', 26)]\<rparr> [] [] True = Return r S'
             \<and> heap S' r = Some (PStr ''hi''))"
proof -
  have pre: "patchy_records (records_setitem example_state 23 22)
     (norm_key (heap (records_setitem example_state 23 22))
        (f_code \<lparr>f_code = 25, f_locals = [(''self'', 26)]\<rparr>)) = Some 22"
    "caller_args (heap (records_setitem example_state 23 22))
        \<lparr>f_code = 25, f_locals = [(''self'', 26)]\<rparr> = ''self'' # []"
    "callable (heap (records_setitem example_state 23 22)) 22"
    "fresh (records_setitem example_state 23 22) = 40"
    by (simp_all add: eval_defs caller_args_def)
  have run: "\<exists>r S'. call (Suc (Suc 0))
                (snd (alloc (records_setitem example_state 23 22) (PMethod 22 26))) 40 [] []
                  = Return r S' \<and> heap S' r = Some (PStr ''hi'')"
    by (simp add: eval_defs new_str_def)
  show ?thesis
    using super_patchy_rebinds_method
            [of "records_setitem example_state 23 22"
                "\<lparr>f_code = 25, f_locals = [(''self'', 26)]\<rparr>" 22 "''self''" "[]" 26
                "call (Suc (Suc 0))" "[]" "[]"]
          pre run
    by simp
qed

end
